theory Spec2Isabelle
  imports Complex_Main
begin

section \<open>The signal-detection core of v5.py\<close>

text \<open>
  The development embeds \<^verbatim>\<open>send_telegram_msg\<close> and \<^verbatim>\<open>analyze_strategy\<close> of
  \<^verbatim>\<open>src/v5.py\<close>. Prices and indicator values are real numbers (the source computes
  with IEEE doubles; rounding is not modelled). A value that pandas leaves undefined
  (NaN: a rolling window that is not full yet, the mean of nothing) is \<open>None\<close>, and a
  comparison with it is false, as in Python. Python text is a \<open>string\<close> holding the
  UTF-8 bytes of the source literal; concatenation and equality of Python strings are
  concatenation and equality of these byte lists.
\<close>

subsection \<open>Data\<close>

datatype error = IndexError | RequestError

text \<open>
  One row of the data frame \<^verbatim>\<open>df\<close> as \<^verbatim>\<open>analyze_strategy\<close> receives it. Of the
  columns the data source delivers the function reads \<^verbatim>\<open>Close\<close> and \<^verbatim>\<open>Volume\<close> only.
\<close>

record bar =
  Close :: real
  Volume :: real

text \<open>A row after lines 45-60 have added the indicator columns to \<^verbatim>\<open>df\<close>.\<close>

record row = bar +
  BB_Mid :: "real option"
  BB_Upper :: "real option"
  BB_Lower :: "real option"
  MACD :: real
  Signal_Line :: real
  MACD_Hist :: real
  EMA_F :: real
  EMA_S :: real

text \<open>The local variables \<^verbatim>\<open>msg\<close>, \<^verbatim>\<open>alert_level\<close>, \<^verbatim>\<open>has_trigger\<close> (lines 68-70).\<close>

record locals =
  msg :: string
  alert_level :: string
  has_trigger :: bool

text \<open>The dictionary \<^verbatim>\<open>info\<close> built at lines 99-105.\<close>

record info =
  price :: real
  bb_pos :: string
  macd_status :: string
  trend :: string
  info_msg :: string
  info_alert_level :: string

text \<open>
  The text handed to \<^verbatim>\<open>send_telegram_msg\<close> (lines 91-95), kept as the values the
  f-string interpolates: the symbol, the message, the price (printed with two
  decimals), the MACD label and the volume ratio (printed with one decimal). The ratio
  is \<open>None\<close> where the float division yields no finite number (mean volume 0 or
  undefined); numpy does not raise there.
\<close>

record tg_text =
  tg_sym :: string
  tg_msg :: string
  tg_price :: real
  tg_macd :: string
  tg_vol_ratio :: "real option"

text \<open>
  The outside world of \<^verbatim>\<open>requests.post\<close>: for a text, \<open>None\<close> when the call returns
  and \<open>Some e\<close> when it raises.
\<close>

type_synonym network = "tg_text \<Rightarrow> error option"

text \<open>
  The mutable state: \<^verbatim>\<open>st.session_state.last_alerts\<close>, every call of
  \<^verbatim>\<open>send_telegram_msg\<close> in order (\<open>sent\<close>), and those among them whose HTTP request
  returned (\<open>delivered\<close>).
\<close>

record session =
  last_alerts :: "string \<rightharpoonup> string"
  sent :: "tg_text list"
  delivered :: "tg_text list"

subsection \<open>String literals of the source\<close>

text \<open>Line 68: U+8DA8 U+52E2 U+7A69 U+5B9A (the spec's "trend stable").\<close>

definition msg_trend_stable :: string where
  "msg_trend_stable =
     [CHR 0xE8, CHR 0xB6, CHR 0xA8, CHR 0xE5, CHR 0x8B, CHR 0xA2, CHR 0xE7, CHR 0xA9, CHR 0xA9,
      CHR 0xE5, CHR 0xAE, CHR 0x9A]"

text \<open>Line 75: U+1F525, space, U+5F37 U+70C8 U+8CB7 U+5165, " (EMA+MACD)"
  (the spec's "strong buy (EMA+MACD)").\<close>

definition msg_strong_buy :: string where
  "msg_strong_buy =
     [CHR 0xF0, CHR 0x9F, CHR 0x94, CHR 0xA5] @ '' '' @
     [CHR 0xE5, CHR 0xBC, CHR 0xB7, CHR 0xE7, CHR 0x83, CHR 0x88, CHR 0xE8, CHR 0xB2, CHR 0xB7,
      CHR 0xE5, CHR 0x85, CHR 0xA5] @ '' (EMA+MACD)''"

text \<open>Line 77: U+1F680, space, U+9EC3 U+91D1 U+4EA4 U+53C9 (the spec's "golden cross").\<close>

definition msg_golden_cross :: string where
  "msg_golden_cross =
     [CHR 0xF0, CHR 0x9F, CHR 0x9A, CHR 0x80] @ '' '' @
     [CHR 0xE9, CHR 0xBB, CHR 0x83, CHR 0xE9, CHR 0x87, CHR 0x91, CHR 0xE4, CHR 0xBA, CHR 0xA4,
      CHR 0xE5, CHR 0x8F, CHR 0x89]"

text \<open>Line 80: U+1F480, space, U+6B7B U+4EA1 U+4EA4 U+53C9 (the spec's "death cross").\<close>

definition msg_death_cross :: string where
  "msg_death_cross =
     [CHR 0xF0, CHR 0x9F, CHR 0x92, CHR 0x80] @ '' '' @
     [CHR 0xE6, CHR 0xAD, CHR 0xBB, CHR 0xE4, CHR 0xBA, CHR 0xA1, CHR 0xE4, CHR 0xBA, CHR 0xA4,
      CHR 0xE5, CHR 0x8F, CHR 0x89]"

text \<open>Line 84: U+1F514, space, U+89F8 U+78B0 U+5E03 U+6797 U+4E0A U+8ECC, " (", U+8D85 U+8CB7,
  ")" (the spec's "touching upper band (overbought)").\<close>

definition msg_bb_upper :: string where
  "msg_bb_upper =
     [CHR 0xF0, CHR 0x9F, CHR 0x94, CHR 0x94] @ '' '' @
     [CHR 0xE8, CHR 0xA7, CHR 0xB8, CHR 0xE7, CHR 0xA2, CHR 0xB0, CHR 0xE5, CHR 0xB8, CHR 0x83,
      CHR 0xE6, CHR 0x9E, CHR 0x97, CHR 0xE4, CHR 0xB8, CHR 0x8A, CHR 0xE8, CHR 0xBB, CHR 0x8C] @
     '' ('' @ [CHR 0xE8, CHR 0xB6, CHR 0x85, CHR 0xE8, CHR 0xB2, CHR 0xB7] @ '')''"

text \<open>Line 86: U+1F4C9, space, U+89F8 U+78B0 U+5E03 U+6797 U+4E0B U+8ECC, " (", U+8D85 U+8CE3,
  ")" (the spec's "touching lower band (oversold)").\<close>

definition msg_bb_lower :: string where
  "msg_bb_lower =
     [CHR 0xF0, CHR 0x9F, CHR 0x93, CHR 0x89] @ '' '' @
     [CHR 0xE8, CHR 0xA7, CHR 0xB8, CHR 0xE7, CHR 0xA2, CHR 0xB0, CHR 0xE5, CHR 0xB8, CHR 0x83,
      CHR 0xE6, CHR 0x9E, CHR 0x97, CHR 0xE4, CHR 0xB8, CHR 0x8B, CHR 0xE8, CHR 0xBB, CHR 0x8C] @
     '' ('' @ [CHR 0xE8, CHR 0xB6, CHR 0x85, CHR 0xE8, CHR 0xB3, CHR 0xA3] @ '')''"

text \<open>Line 94: U+1F4C8, space, U+591A U+65B9 U+4F54 U+512A, and U+1F4C9, space,
  U+7A7A U+65B9 U+4F54 U+512A.\<close>

definition tg_macd_bull :: string where
  "tg_macd_bull =
     [CHR 0xF0, CHR 0x9F, CHR 0x93, CHR 0x88] @ '' '' @
     [CHR 0xE5, CHR 0xA4, CHR 0x9A, CHR 0xE6, CHR 0x96, CHR 0xB9, CHR 0xE4, CHR 0xBD, CHR 0x94,
      CHR 0xE5, CHR 0x84, CHR 0xAA]"

definition tg_macd_bear :: string where
  "tg_macd_bear =
     [CHR 0xF0, CHR 0x9F, CHR 0x93, CHR 0x89] @ '' '' @
     [CHR 0xE7, CHR 0xA9, CHR 0xBA, CHR 0xE6, CHR 0x96, CHR 0xB9, CHR 0xE4, CHR 0xBD, CHR 0x94,
      CHR 0xE5, CHR 0x84, CHR 0xAA]"

text \<open>Line 101: U+8ECC U+9053 U+5167 ("inside") and U+8ECC U+9053 U+5916 ("outside").\<close>

definition bb_pos_inside :: string where
  "bb_pos_inside =
     [CHR 0xE8, CHR 0xBB, CHR 0x8C, CHR 0xE9, CHR 0x81, CHR 0x93, CHR 0xE5, CHR 0x85, CHR 0xA7]"

definition bb_pos_outside :: string where
  "bb_pos_outside =
     [CHR 0xE8, CHR 0xBB, CHR 0x8C, CHR 0xE9, CHR 0x81, CHR 0x93, CHR 0xE5, CHR 0xA4, CHR 0x96]"

text \<open>Line 102: U+591A U+982D U+8F49 U+5F37 ("bullish") and U+7A7A U+982D U+8F49 U+5F37
  ("bearish").\<close>

definition macd_status_bull :: string where
  "macd_status_bull =
     [CHR 0xE5, CHR 0xA4, CHR 0x9A, CHR 0xE9, CHR 0xA0, CHR 0xAD, CHR 0xE8, CHR 0xBD, CHR 0x89,
      CHR 0xE5, CHR 0xBC, CHR 0xB7]"

definition macd_status_bear :: string where
  "macd_status_bear =
     [CHR 0xE7, CHR 0xA9, CHR 0xBA, CHR 0xE9, CHR 0xA0, CHR 0xAD, CHR 0xE8, CHR 0xBD, CHR 0x89,
      CHR 0xE5, CHR 0xBC, CHR 0xB7]"

text \<open>Line 103: U+591A U+982D " (Bullish)" and U+7A7A U+982D " (Bearish)".\<close>

definition trend_bull :: string where
  "trend_bull = [CHR 0xE5, CHR 0xA4, CHR 0x9A, CHR 0xE9, CHR 0xA0, CHR 0xAD] @ '' (Bullish)''"

definition trend_bear :: string where
  "trend_bear = [CHR 0xE7, CHR 0xA9, CHR 0xBA, CHR 0xE9, CHR 0xA0, CHR 0xAD] @ '' (Bearish)''"

subsection \<open>The pandas operations the function uses\<close>

text \<open>\<^verbatim>\<open>a < b\<close> on floats that may be NaN: false as soon as one side is NaN.\<close>

definition fless :: "real option \<Rightarrow> real option \<Rightarrow> bool" where
  "fless a b = (case a of None \<Rightarrow> False
                | Some x \<Rightarrow> (case b of None \<Rightarrow> False | Some y \<Rightarrow> x < y))"

text \<open>\<^verbatim>\<open>a + b\<close>, \<^verbatim>\<open>a - b\<close> and \<^verbatim>\<open>a * k\<close> on floats that may be NaN.\<close>

definition fadd :: "real option \<Rightarrow> real option \<Rightarrow> real option" where
  "fadd a b = (case a of None \<Rightarrow> None
               | Some x \<Rightarrow> (case b of None \<Rightarrow> None | Some y \<Rightarrow> Some (x + y)))"

definition fsub :: "real option \<Rightarrow> real option \<Rightarrow> real option" where
  "fsub a b = (case a of None \<Rightarrow> None
               | Some x \<Rightarrow> (case b of None \<Rightarrow> None | Some y \<Rightarrow> Some (x - y)))"

definition fscale :: "real option \<Rightarrow> real \<Rightarrow> real option" where
  "fscale a k = (case a of None \<Rightarrow> None | Some x \<Rightarrow> Some (x * k))"

text \<open>\<^verbatim>\<open>Series.mean()\<close>: NaN on an empty series.\<close>

definition mean :: "real list \<Rightarrow> real option" where
  "mean xs = (if xs = [] then None else Some (sum_list xs / real (length xs)))"

text \<open>\<^verbatim>\<open>Series.std()\<close>: the sample standard deviation (divisor \<open>n - 1\<close>), NaN below two
  values.\<close>

definition std :: "real list \<Rightarrow> real option" where
  "std xs =
     (if length xs < 2 then None
      else let m = sum_list xs / real (length xs)
           in Some (sqrt (sum_list (map (\<lambda>x. (x - m)\<^sup>2) xs) / real (length xs - 1))))"

text \<open>
  \<^verbatim>\<open>Series.rolling(window=w)\<close>: at position \<open>i\<close> the trailing \<open>w\<close> values ending at
  \<open>i\<close>, and nothing while fewer than \<open>w\<close> values are there (\<^verbatim>\<open>min_periods\<close> is \<open>w\<close>).
\<close>

definition rolling :: "nat \<Rightarrow> real list \<Rightarrow> real list option list" where
  "rolling w xs =
     map (\<lambda>i. if i + 1 < w then None else Some (take w (drop (i + 1 - w) xs))) [0..<length xs]"

definition rolling_mean :: "nat \<Rightarrow> real list \<Rightarrow> real option list" where
  "rolling_mean w xs = map (\<lambda>v. case v of None \<Rightarrow> None | Some win \<Rightarrow> mean win) (rolling w xs)"

definition rolling_std :: "nat \<Rightarrow> real list \<Rightarrow> real option list" where
  "rolling_std w xs = map (\<lambda>v. case v of None \<Rightarrow> None | Some win \<Rightarrow> std win) (rolling w xs)"

text \<open>
  \<^verbatim>\<open>Series.ewm(span=n, adjust=False).mean()\<close>: \<open>y\<^sub>0 = x\<^sub>0\<close> and
  \<open>y\<^sub>t = (1 - a) * y\<^sub>t\<^sub>-\<^sub>1 + a * x\<^sub>t\<close> with \<open>a = 2 / (n + 1)\<close>.
\<close>

fun ewm_from :: "real \<Rightarrow> real \<Rightarrow> real list \<Rightarrow> real list" where
  "ewm_from a y [] = []"
| "ewm_from a y (x # xs) = ((1 - a) * y + a * x) # ewm_from a ((1 - a) * y + a * x) xs"

definition ewm_mean :: "nat \<Rightarrow> real list \<Rightarrow> real list" where
  "ewm_mean n xs =
     (case xs of [] \<Rightarrow> [] | x # rest \<Rightarrow> x # ewm_from (2 / (real n + 1)) x rest)"

text \<open>\<^verbatim>\<open>Series.tail(n)\<close>: the last \<open>n\<close> values, all of them when there are fewer.\<close>

definition tail :: "nat \<Rightarrow> 'a list \<Rightarrow> 'a list" where
  "tail n xs = drop (length xs - n) xs"

text \<open>
  \<^verbatim>\<open>df.iloc[i]\<close>: position \<open>i\<close> from the front when \<open>i\<close> is not negative, position
  \<open>length + i\<close> when it is, and \<^verbatim>\<open>IndexError\<close> when that position does not exist.
\<close>

definition iloc :: "'a list \<Rightarrow> int \<Rightarrow> error + 'a" where
  "iloc xs i =
     (if 0 \<le> i \<and> i < int (length xs) then Inr (xs ! nat i)
      else if i < 0 \<and> - int (length xs) \<le> i then Inr (xs ! nat (int (length xs) + i))
      else Inl IndexError)"

subsection \<open>Lines 45-60: the indicator columns\<close>

definition enrich :: "bar list \<Rightarrow> row list" where
  "enrich df =
     (let cl = map Close df;
          bb_mid = rolling_mean 20 cl;
          sd = rolling_std 20 cl;
          bb_upper = map2 fadd bb_mid (map (\<lambda>s. fscale s 2) sd);
          bb_lower = map2 fsub bb_mid (map (\<lambda>s. fscale s 2) sd);
          exp1 = ewm_mean 12 cl;
          exp2 = ewm_mean 26 cl;
          macd = map2 (-) exp1 exp2;
          signal_line = ewm_mean 9 macd;
          macd_hist = map2 (-) macd signal_line;
          ema_f = ewm_mean 9 cl;
          ema_s = ewm_mean 21 cl
      in map (\<lambda>i. \<lparr>Close = Close (df ! i), Volume = Volume (df ! i),
                    BB_Mid = bb_mid ! i, BB_Upper = bb_upper ! i, BB_Lower = bb_lower ! i,
                    MACD = macd ! i, Signal_Line = signal_line ! i, MACD_Hist = macd_hist ! i,
                    EMA_F = ema_f ! i, EMA_S = ema_s ! i\<rparr>)
             [0..<length df])"

subsection \<open>Lines 17-22: the notifier\<close>

text \<open>
  The whole body is inside \<^verbatim>\<open>try\<close> with a bare \<^verbatim>\<open>except: pass\<close>, so the function
  returns normally whatever \<^verbatim>\<open>requests.post\<close> does.
\<close>

definition send_telegram_msg :: "network \<Rightarrow> tg_text \<Rightarrow> session \<Rightarrow> session" where
  "send_telegram_msg net message s =
     (case net message of
        Some e \<Rightarrow> s\<lparr>sent := sent s @ [message]\<rparr>
      | None \<Rightarrow> s\<lparr>sent := sent s @ [message], delivered := delivered s @ [message]\<rparr>)"

subsection \<open>Lines 68-106: classification, notification, result\<close>

text \<open>The conditions of lines 73 and 79.\<close>

definition bullish_cross :: "row \<Rightarrow> row \<Rightarrow> bool" where
  "bullish_cross prev_bar last_bar \<longleftrightarrow>
     EMA_F prev_bar \<le> EMA_S prev_bar \<and> EMA_F last_bar > EMA_S last_bar"

definition bearish_cross :: "row \<Rightarrow> row \<Rightarrow> bool" where
  "bearish_cross prev_bar last_bar \<longleftrightarrow>
     EMA_F prev_bar \<ge> EMA_S prev_bar \<and> EMA_F last_bar < EMA_S last_bar"

text \<open>Lines 68-80: the initial values and the EMA crossover.\<close>

definition crossover :: "row \<Rightarrow> row \<Rightarrow> locals" where
  "crossover prev_bar last_bar =
     (let l = \<lparr>msg = msg_trend_stable, alert_level = ''success'', has_trigger = False\<rparr>
      in if bullish_cross prev_bar last_bar then
           (if MACD_Hist last_bar > 0
            then l\<lparr>msg := msg_strong_buy, alert_level := ''error'', has_trigger := True\<rparr>
            else l\<lparr>msg := msg_golden_cross, alert_level := ''warning'', has_trigger := True\<rparr>)
         else if bearish_cross prev_bar last_bar then
           l\<lparr>msg := msg_death_cross, alert_level := ''error'', has_trigger := True\<rparr>
         else l)"

text \<open>The conditions of lines 83 and 85.\<close>

definition upper_break :: "real \<Rightarrow> row \<Rightarrow> bool" where
  "upper_break curr_p last_bar \<longleftrightarrow> fless (BB_Upper last_bar) (Some curr_p)"

definition lower_break :: "real \<Rightarrow> row \<Rightarrow> bool" where
  "lower_break curr_p last_bar \<longleftrightarrow> fless (Some curr_p) (BB_Lower last_bar)"

text \<open>Lines 83-86: the Bollinger breakout.\<close>

definition bollinger :: "real \<Rightarrow> row \<Rightarrow> locals \<Rightarrow> locals" where
  "bollinger curr_p last_bar l =
     (if upper_break curr_p last_bar then
        l\<lparr>msg := msg_bb_upper, alert_level := ''warning''\<rparr>
      else if lower_break curr_p last_bar then
        l\<lparr>msg := msg_bb_lower, alert_level := ''warning''\<rparr>
      else l)"

text \<open>Line 89.\<close>

definition alert_key :: "string \<Rightarrow> string \<Rightarrow> string" where
  "alert_key symbol m = symbol @ ''_'' @ m"

text \<open>Lines 91-95: the text of the notification.\<close>

definition make_tg_text :: "row list \<Rightarrow> row \<Rightarrow> string \<Rightarrow> string \<Rightarrow> real \<Rightarrow> tg_text" where
  "make_tg_text df last_bar symbol m curr_p =
     \<lparr>tg_sym = symbol, tg_msg = m, tg_price = curr_p,
      tg_macd = (if MACD_Hist last_bar > 0 then tg_macd_bull else tg_macd_bear),
      tg_vol_ratio =
        (case mean (tail 10 (map Volume df)) of
           None \<Rightarrow> None
         | Some v \<Rightarrow> if v = 0 then None else Some (Volume last_bar / v))\<rparr>"

text \<open>Lines 90-97: the notification and the update of \<^verbatim>\<open>last_alerts\<close>.\<close>

definition notify :: "network \<Rightarrow> row list \<Rightarrow> row \<Rightarrow> string \<Rightarrow> real \<Rightarrow> locals \<Rightarrow> session \<Rightarrow> session" where
  "notify net df last_bar symbol curr_p l s =
     (let key = alert_key symbol (msg l)
      in if has_trigger l \<and> last_alerts s symbol \<noteq> Some key then
           (let s1 = send_telegram_msg net (make_tg_text df last_bar symbol (msg l) curr_p) s
            in s1\<lparr>last_alerts := (last_alerts s1)(symbol \<mapsto> key)\<rparr>)
         else s)"

text \<open>Lines 99-105.\<close>

definition make_info :: "row \<Rightarrow> real \<Rightarrow> locals \<Rightarrow> info" where
  "make_info last_bar curr_p l =
     \<lparr>price = curr_p,
      bb_pos = (if fless (BB_Lower last_bar) (Some curr_p) \<and> fless (Some curr_p) (BB_Upper last_bar)
                then bb_pos_inside else bb_pos_outside),
      macd_status = (if MACD_Hist last_bar > 0 then macd_status_bull else macd_status_bear),
      trend = (if EMA_F last_bar > EMA_S last_bar then trend_bull else trend_bear),
      info_msg = msg l, info_alert_level = alert_level l\<rparr>"

text \<open>
  \<^verbatim>\<open>analyze_strategy(df, sym)\<close>. The result \<^verbatim>\<open>(None, None)\<close> is \<open>None\<close>, the result
  \<^verbatim>\<open>(df, info)\<close> is \<open>Some (df, info)\<close> with the enriched frame; the session state the
  function mutates is passed in and returned.
\<close>

definition analyze_strategy ::
  "network \<Rightarrow> bar list option \<Rightarrow> string \<Rightarrow> session \<Rightarrow> error + ((row list \<times> info) option \<times> session)" where
  "analyze_strategy net df_in symbol s =
     (case df_in of
        None \<Rightarrow> Inr (None, s)
      | Some df0 \<Rightarrow>
          if length df0 < 35 then Inr (None, s)
          else
            (let df = enrich df0 in
             case iloc df (- 1) of
               Inl e \<Rightarrow> Inl e
             | Inr last_bar \<Rightarrow>
                 (case iloc df (- 2) of
                    Inl e \<Rightarrow> Inl e
                  | Inr prev_bar \<Rightarrow>
                      (let curr_p = Close last_bar;
                           l = bollinger curr_p last_bar (crossover prev_bar last_bar);
                           s' = notify net df last_bar symbol curr_p l s
                       in Inr (Some (df, make_info last_bar curr_p l), s')))))"

subsection \<open>Example inputs\<close>

text \<open>
  Series of 35 bars that stay at 100 and move in their last bars, one for each outcome
  of the classification; a network that delivers and one that fails; the empty
  session of line 29.
\<close>

definition bars :: "real list \<Rightarrow> bar list" where
  "bars closes = map (\<lambda>c. \<lparr>Close = c, Volume = 1\<rparr>) closes"

definition df_flat :: "bar list" where
  "df_flat = bars (replicate 35 100)"

definition df_strong_buy :: "bar list" where
  "df_strong_buy = bars (replicate 32 100 @ [90, 102, 105])"

definition df_golden :: "bar list" where
  "df_golden = bars (replicate 31 100 @ [101, 105, 95, 101])"

definition df_death :: "bar list" where
  "df_death = bars (replicate 32 100 @ [90, 110, 95])"

definition df_breakout_only :: "bar list" where
  "df_breakout_only = bars (replicate 33 100 @ [101, 101])"

definition df_buy_breakout :: "bar list" where
  "df_buy_breakout = bars (replicate 34 100 @ [110])"

definition df_death_breakout :: "bar list" where
  "df_death_breakout = bars (replicate 34 100 @ [90])"

definition net_ok :: network where
  "net_ok t = None"

definition net_down :: network where
  "net_down t = Some RequestError"

definition session0 :: session where
  "session0 = \<lparr>last_alerts = Map.empty, sent = [], delivered = []\<rparr>"

text \<open>A session that already holds an alert for another symbol.\<close>

definition session1 :: session where
  "session1 =
     \<lparr>last_alerts = [''NVDA'' \<mapsto> alert_key ''NVDA'' msg_death_cross], sent = [], delivered = []\<rparr>"

section \<open>Auxiliary facts\<close>

subsection \<open>Lengths and positions\<close>

lemma length_ewm_from [simp]: "length (ewm_from a y xs) = length xs"
  by (induction xs arbitrary: y) simp_all

lemma length_ewm_mean [simp]: "length (ewm_mean n xs) = length xs"
  by (simp add: ewm_mean_def split: list.split)

lemma length_rolling [simp]: "length (rolling w xs) = length xs"
  by (simp add: rolling_def)

lemma length_rolling_mean [simp]: "length (rolling_mean w xs) = length xs"
  by (simp add: rolling_mean_def)

lemma length_rolling_std [simp]: "length (rolling_std w xs) = length xs"
  by (simp add: rolling_std_def)

lemma length_enrich [simp]: "length (enrich df) = length df"
  by (simp add: enrich_def Let_def)

lemma iloc_last: "0 < length xs \<Longrightarrow> iloc xs (- 1) = Inr (xs ! (length xs - 1))"
  by (cases xs) (simp_all add: iloc_def)

lemma iloc_prev: "2 \<le> length xs \<Longrightarrow> iloc xs (- 2) = Inr (xs ! (length xs - 2))"
  by (simp add: iloc_def nat_diff_distrib')

lemma iloc_enrich:
  assumes "35 \<le> length df"
  shows "iloc (enrich df) (- 1) = Inr (enrich df ! (length df - 1))"
    and "iloc (enrich df) (- 2) = Inr (enrich df ! (length df - 2))"
proof -
  have n1: "0 < length (enrich df)" and n2: "2 \<le> length (enrich df)"
    using assms by auto
  show "iloc (enrich df) (- 1) = Inr (enrich df ! (length df - 1))"
    using iloc_last [OF n1] by simp
  show "iloc (enrich df) (- 2) = Inr (enrich df ! (length df - 2))"
    using iloc_prev [OF n2] by simp
qed

lemma rolling_nth:
  "i < length xs \<Longrightarrow>
   rolling w xs ! i = (if i + 1 < w then None else Some (take w (drop (i + 1 - w) xs)))"
  by (simp add: rolling_def)

lemma enrich_nth:
  assumes "i < length df"
  shows "enrich df ! i =
    \<lparr>Close = Close (df ! i), Volume = Volume (df ! i),
     BB_Mid = rolling_mean 20 (map Close df) ! i,
     BB_Upper = fadd (rolling_mean 20 (map Close df) ! i)
                     (fscale (rolling_std 20 (map Close df) ! i) 2),
     BB_Lower = fsub (rolling_mean 20 (map Close df) ! i)
                     (fscale (rolling_std 20 (map Close df) ! i) 2),
     MACD = ewm_mean 12 (map Close df) ! i - ewm_mean 26 (map Close df) ! i,
     Signal_Line =
       ewm_mean 9 (map2 (-) (ewm_mean 12 (map Close df)) (ewm_mean 26 (map Close df))) ! i,
     MACD_Hist =
       (ewm_mean 12 (map Close df) ! i - ewm_mean 26 (map Close df) ! i)
       - ewm_mean 9 (map2 (-) (ewm_mean 12 (map Close df)) (ewm_mean 26 (map Close df))) ! i,
     EMA_F = ewm_mean 9 (map Close df) ! i, EMA_S = ewm_mean 21 (map Close df) ! i\<rparr>"
  using assms by (simp add: enrich_def Let_def)

lemma map_Volume_enrich: "map Volume (enrich df) = map Volume df"
  by (rule nth_equalityI) (simp_all add: enrich_nth)

lemma map_Close_enrich: "map Close (enrich df) = map Close df"
  by (rule nth_equalityI) (simp_all add: enrich_nth)

subsection \<open>The unfolded function\<close>

lemma analyze_strategy_long:
  assumes "35 \<le> length df"
  shows "analyze_strategy net (Some df) symbol s =
           Inr (Some (enrich df,
                      make_info (enrich df ! (length df - 1)) (Close (enrich df ! (length df - 1)))
                        (bollinger (Close (enrich df ! (length df - 1))) (enrich df ! (length df - 1))
                           (crossover (enrich df ! (length df - 2)) (enrich df ! (length df - 1))))),
                notify net (enrich df) (enrich df ! (length df - 1)) symbol
                  (Close (enrich df ! (length df - 1)))
                  (bollinger (Close (enrich df ! (length df - 1))) (enrich df ! (length df - 1))
                     (crossover (enrich df ! (length df - 2)) (enrich df ! (length df - 1)))) s)"
  using assms by (simp add: analyze_strategy_def iloc_enrich Let_def)

lemma analyze_strategy_short:
  "length df < 35 \<Longrightarrow> analyze_strategy net (Some df) symbol s = Inr (None, s)"
  by (simp add: analyze_strategy_def)

lemma analyze_strategy_None: "analyze_strategy net None symbol s = Inr (None, s)"
  by (simp add: analyze_strategy_def)

subsection \<open>The notifier and the session\<close>

lemma send_telegram_msg_last_alerts [simp]:
  "last_alerts (send_telegram_msg net t s) = last_alerts s"
  by (simp add: send_telegram_msg_def split: option.split)

lemma send_telegram_msg_sent [simp]: "sent (send_telegram_msg net t s) = sent s @ [t]"
  by (simp add: send_telegram_msg_def split: option.split)

lemma send_telegram_msg_delivered:
  "delivered (send_telegram_msg net t s) =
     (if net t = None then delivered s @ [t] else delivered s)"
  by (simp add: send_telegram_msg_def split: option.split)

lemma notify_quiet:
  "\<not> (has_trigger l \<and> last_alerts s symbol \<noteq> Some (alert_key symbol (msg l))) \<Longrightarrow>
   notify net df last_bar symbol curr_p l s = s"
  by (auto simp add: notify_def Let_def)

lemma notify_fires:
  assumes "has_trigger l" "last_alerts s symbol \<noteq> Some (alert_key symbol (msg l))"
  shows "last_alerts (notify net df last_bar symbol curr_p l s) =
           (last_alerts s)(symbol \<mapsto> alert_key symbol (msg l))"
    and "sent (notify net df last_bar symbol curr_p l s) =
           sent s @ [make_tg_text df last_bar symbol (msg l) curr_p]"
    and "delivered (notify net df last_bar symbol curr_p l s) =
           (if net (make_tg_text df last_bar symbol (msg l) curr_p) = None
            then delivered s @ [make_tg_text df last_bar symbol (msg l) curr_p]
            else delivered s)"
  using assms by (simp_all add: notify_def Let_def send_telegram_msg_delivered)

lemma notify_twice:
  "notify net df last_bar symbol curr_p l (notify net df last_bar symbol curr_p l s) =
   notify net df last_bar symbol curr_p l s"
  by (simp add: notify_def Let_def)

lemma alert_key_inject [simp]: "alert_key symbol m = alert_key symbol m' \<longleftrightarrow> m = m'"
  by (simp add: alert_key_def)

lemma bollinger_has_trigger [simp]: "has_trigger (bollinger curr_p last_bar l) = has_trigger l"
  by (simp add: bollinger_def)

subsection \<open>Evaluating the example series\<close>

lemma ewm_from_replicate: "ewm_from a c (replicate k c @ ys) = replicate k c @ ewm_from a c ys"
  by (induction k) (simp_all add: algebra_simps)

lemma ewm_mean_replicate_append:
  "0 < k \<Longrightarrow>
   ewm_mean n (replicate k c @ ys) = replicate k c @ ewm_from (2 / (real n + 1)) c ys"
  by (cases k) (simp_all add: ewm_mean_def ewm_from_replicate)

lemma ewm_mean_replicate: "ewm_mean n (replicate k c) = replicate k c"
proof (cases k)
  case 0
  then show ?thesis by (simp add: ewm_mean_def)
next
  case (Suc j)
  then show ?thesis
    using ewm_mean_replicate_append [of k n c "[]"] by simp
qed

lemma map_Close_bars [simp]: "map Close (bars closes) = closes"
  by (simp add: bars_def comp_def)

lemma map_Volume_bars [simp]: "map Volume (bars closes) = replicate (length closes) 1"
  by (simp add: bars_def comp_def map_replicate_const)

lemma length_bars [simp]: "length (bars closes) = length closes"
  by (simp add: bars_def)

lemma nth_bars [simp]: "i < length closes \<Longrightarrow> bars closes ! i = \<lparr>Close = closes ! i, Volume = 1\<rparr>"
  by (simp add: bars_def)

lemmas eval_row =
  enrich_nth ewm_mean_replicate ewm_mean_replicate_append nth_append rolling_mean_def rolling_std_def rolling_nth
  mean_def std_def fadd_def fsub_def fscale_def Let_def sum_list_replicate

lemma sqrt_band_upper:
  assumes "0 \<le> v"
  shows "m + sqrt v * 2 < c \<longleftrightarrow> m < c \<and> 4 * v < (c - m)\<^sup>2"
proof (cases "m < c")
  case True
  have "sqrt v * 2 = sqrt (4 * v)"
    by (simp add: real_sqrt_mult)
  moreover have "sqrt (4 * v) < c - m \<longleftrightarrow> 4 * v < (c - m)\<^sup>2"
    using True real_sqrt_less_iff [of "4 * v" "(c - m)\<^sup>2"] by simp
  ultimately show ?thesis
    using True by auto
next
  case False
  have "0 \<le> sqrt v"
    using assms by simp
  then have "c \<le> m + sqrt v * 2"
    using False by linarith
  then show ?thesis
    using False by simp
qed

lemma sqrt_band_lower:
  assumes "0 \<le> v"
  shows "c < m - sqrt v * 2 \<longleftrightarrow> c < m \<and> 4 * v < (m - c)\<^sup>2"
  using sqrt_band_upper [OF assms, of "- m" "- c"] by (simp add: algebra_simps power2_commute)

lemmas eval_break = upper_break_def lower_break_def fless_def sqrt_band_upper sqrt_band_lower

lemma flat_rows:
  shows "\<not> bullish_cross (enrich df_flat ! 33) (enrich df_flat ! 34)"
    and "\<not> bearish_cross (enrich df_flat ! 33) (enrich df_flat ! 34)"
    and "\<not> upper_break (Close (enrich df_flat ! 34)) (enrich df_flat ! 34)"
    and "\<not> lower_break (Close (enrich df_flat ! 34)) (enrich df_flat ! 34)"
  by (simp_all add: df_flat_def bullish_cross_def bearish_cross_def eval_row eval_break
      power2_eq_square)

lemma strong_buy_rows:
  shows "bullish_cross (enrich df_strong_buy ! 33) (enrich df_strong_buy ! 34)"
    and "0 < MACD_Hist (enrich df_strong_buy ! 34)"
    and "\<not> upper_break (Close (enrich df_strong_buy ! 34)) (enrich df_strong_buy ! 34)"
    and "\<not> lower_break (Close (enrich df_strong_buy ! 34)) (enrich df_strong_buy ! 34)"
  by (simp_all add: df_strong_buy_def bullish_cross_def bearish_cross_def eval_row eval_break
      power2_eq_square)

lemma golden_rows:
  shows "bullish_cross (enrich df_golden ! 33) (enrich df_golden ! 34)"
    and "\<not> 0 < MACD_Hist (enrich df_golden ! 34)"
    and "\<not> upper_break (Close (enrich df_golden ! 34)) (enrich df_golden ! 34)"
    and "\<not> lower_break (Close (enrich df_golden ! 34)) (enrich df_golden ! 34)"
  by (simp_all add: df_golden_def bullish_cross_def bearish_cross_def eval_row eval_break
      power2_eq_square)

lemma death_rows:
  shows "\<not> bullish_cross (enrich df_death ! 33) (enrich df_death ! 34)"
    and "bearish_cross (enrich df_death ! 33) (enrich df_death ! 34)"
    and "\<not> upper_break (Close (enrich df_death ! 34)) (enrich df_death ! 34)"
    and "\<not> lower_break (Close (enrich df_death ! 34)) (enrich df_death ! 34)"
  by (simp_all add: df_death_def bullish_cross_def bearish_cross_def eval_row eval_break
      power2_eq_square)

lemma breakout_only_rows:
  shows "\<not> bullish_cross (enrich df_breakout_only ! 33) (enrich df_breakout_only ! 34)"
    and "\<not> bearish_cross (enrich df_breakout_only ! 33) (enrich df_breakout_only ! 34)"
    and "upper_break (Close (enrich df_breakout_only ! 34)) (enrich df_breakout_only ! 34)"
  by (simp_all add: df_breakout_only_def bullish_cross_def bearish_cross_def eval_row eval_break
      power2_eq_square)

lemma buy_breakout_rows:
  shows "bullish_cross (enrich df_buy_breakout ! 33) (enrich df_buy_breakout ! 34)"
    and "0 < MACD_Hist (enrich df_buy_breakout ! 34)"
    and "upper_break (Close (enrich df_buy_breakout ! 34)) (enrich df_buy_breakout ! 34)"
  by (simp_all add: df_buy_breakout_def bullish_cross_def bearish_cross_def eval_row eval_break
      power2_eq_square)

lemma death_breakout_rows:
  shows "\<not> bullish_cross (enrich df_death_breakout ! 33) (enrich df_death_breakout ! 34)"
    and "bearish_cross (enrich df_death_breakout ! 33) (enrich df_death_breakout ! 34)"
    and "\<not> upper_break (Close (enrich df_death_breakout ! 34)) (enrich df_death_breakout ! 34)"
    and "lower_break (Close (enrich df_death_breakout ! 34)) (enrich df_death_breakout ! 34)"
  by (simp_all add: df_death_breakout_def bullish_cross_def bearish_cross_def eval_row eval_break
      power2_eq_square)

lemma length_examples [simp]:
  shows "length df_flat = 35"
    and "length df_strong_buy = 35"
    and "length df_golden = 35"
    and "length df_death = 35"
    and "length df_breakout_only = 35"
    and "length df_buy_breakout = 35"
    and "length df_death_breakout = 35"
  by (simp_all add: df_flat_def df_strong_buy_def df_golden_def df_death_def df_breakout_only_def df_buy_breakout_def df_death_breakout_def)

lemma flat_locals:
  "bollinger (Close (enrich df_flat ! 34)) (enrich df_flat ! 34)
     (crossover (enrich df_flat ! 33) (enrich df_flat ! 34)) =
   \<lparr>msg = msg_trend_stable, alert_level = ''success'', has_trigger = False\<rparr>"
  by (simp add: crossover_def bollinger_def flat_rows)

lemma strong_buy_locals:
  "bollinger (Close (enrich df_strong_buy ! 34)) (enrich df_strong_buy ! 34)
     (crossover (enrich df_strong_buy ! 33) (enrich df_strong_buy ! 34)) =
   \<lparr>msg = msg_strong_buy, alert_level = ''error'', has_trigger = True\<rparr>"
  by (simp add: crossover_def bollinger_def strong_buy_rows)

lemma golden_locals:
  "bollinger (Close (enrich df_golden ! 34)) (enrich df_golden ! 34)
     (crossover (enrich df_golden ! 33) (enrich df_golden ! 34)) =
   \<lparr>msg = msg_golden_cross, alert_level = ''warning'', has_trigger = True\<rparr>"
  by (simp add: crossover_def bollinger_def golden_rows)

lemma death_locals:
  "bollinger (Close (enrich df_death ! 34)) (enrich df_death ! 34)
     (crossover (enrich df_death ! 33) (enrich df_death ! 34)) =
   \<lparr>msg = msg_death_cross, alert_level = ''error'', has_trigger = True\<rparr>"
  by (simp add: crossover_def bollinger_def death_rows)

lemma breakout_only_locals:
  "bollinger (Close (enrich df_breakout_only ! 34)) (enrich df_breakout_only ! 34)
     (crossover (enrich df_breakout_only ! 33) (enrich df_breakout_only ! 34)) =
   \<lparr>msg = msg_bb_upper, alert_level = ''warning'', has_trigger = False\<rparr>"
  by (simp add: crossover_def bollinger_def breakout_only_rows)

lemma buy_breakout_locals:
  "bollinger (Close (enrich df_buy_breakout ! 34)) (enrich df_buy_breakout ! 34)
     (crossover (enrich df_buy_breakout ! 33) (enrich df_buy_breakout ! 34)) =
   \<lparr>msg = msg_bb_upper, alert_level = ''warning'', has_trigger = True\<rparr>"
  by (simp add: crossover_def bollinger_def buy_breakout_rows)

lemma death_breakout_locals:
  "bollinger (Close (enrich df_death_breakout ! 34)) (enrich df_death_breakout ! 34)
     (crossover (enrich df_death_breakout ! 33) (enrich df_death_breakout ! 34)) =
   \<lparr>msg = msg_bb_lower, alert_level = ''warning'', has_trigger = True\<rparr>"
  by (simp add: crossover_def bollinger_def death_breakout_rows)

lemma example_bars:
  assumes "length df = 35"
    and "iloc (enrich df) (- 2) = Inr p" and "iloc (enrich df) (- 1) = Inr l"
  shows "p = enrich df ! 33" and "l = enrich df ! 34"
  using assms iloc_enrich [of df] by simp_all

subsection \<open>The bands after the warm-up\<close>

lemma length_window:
  assumes "w \<le> i + 1" and "i < length xs"
  shows "length (take w (drop (i + 1 - w) xs)) = w"
  using assms by simp

lemma std_defined:
  assumes "2 \<le> length xs"
  shows "\<exists>sd. std xs = Some sd \<and> 0 \<le> sd"
proof -
  let ?m = "sum_list xs / real (length xs)"
  have "0 \<le> sum_list (map (\<lambda>x. (x - ?m)\<^sup>2) xs)"
    by (rule sum_list_nonneg) auto
  then have "0 \<le> sqrt (sum_list (map (\<lambda>x. (x - ?m)\<^sup>2) xs) / real (length xs - 1))"
    by simp
  then show ?thesis
    using assms by (simp add: std_def Let_def)
qed

lemma bands_defined:
  assumes "19 \<le> i" and "i < length df"
  shows "\<exists>m sd. 0 \<le> sd \<and> BB_Mid (enrich df ! i) = Some m \<and>
           BB_Upper (enrich df ! i) = Some (m + sd * 2) \<and>
           BB_Lower (enrich df ! i) = Some (m - sd * 2)"
proof -
  let ?win = "take 20 (drop (i + 1 - 20) (map Close df))"
  have len: "length ?win = 20"
    using assms length_window [of 20 i "map Close df"] by simp
  have r: "rolling 20 (map Close df) ! i = Some ?win"
    using assms by (simp add: rolling_nth)
  have ne: "?win \<noteq> []"
    using len by auto
  obtain m where m: "mean ?win = Some m"
    using ne by (simp add: mean_def)
  obtain sd where sd: "std ?win = Some sd" "0 \<le> sd"
    using len std_defined [of ?win] by auto
  have "rolling_mean 20 (map Close df) ! i = Some m"
    "rolling_std 20 (map Close df) ! i = Some sd"
    using assms r m sd by (simp_all add: rolling_mean_def rolling_std_def)
  then show ?thesis
    using assms sd by (simp add: enrich_nth fadd_def fsub_def fscale_def)
qed

lemma bands_last:
  assumes "35 \<le> length df"
  shows "\<exists>lo up. BB_Lower (enrich df ! (length df - 1)) = Some lo \<and>
           BB_Upper (enrich df ! (length df - 1)) = Some up \<and> lo \<le> up"
proof -
  obtain m sd where "0 \<le> sd" "BB_Upper (enrich df ! (length df - 1)) = Some (m + sd * 2)"
    "BB_Lower (enrich df ! (length df - 1)) = Some (m - sd * 2)"
    using bands_defined [of "length df - 1" df] assms by fastforce
  then show ?thesis
    by simp
qed

lemma crossover_has_trigger:
  "has_trigger (crossover prev_bar last_bar) \<longleftrightarrow>
   bullish_cross prev_bar last_bar \<or> bearish_cross prev_bar last_bar"
  by (simp add: crossover_def Let_def)

lemma make_info_msg [simp]:
  "info_msg (make_info last_bar curr_p l) = msg l"
  "info_alert_level (make_info last_bar curr_p l) = alert_level l"
  by (simp_all add: make_info_def)

lemma tg_msg_make_tg_text [simp]: "tg_msg (make_tg_text df last_bar symbol m curr_p) = m"
  by (simp add: make_tg_text_def)

lemma bollinger_cases:
  assumes "BB_Lower last_bar = Some lo" and "BB_Upper last_bar = Some up"
  shows "up < curr_p \<Longrightarrow>
           bollinger curr_p last_bar l = l\<lparr>msg := msg_bb_upper, alert_level := ''warning''\<rparr>"
    and "\<not> up < curr_p \<Longrightarrow> curr_p < lo \<Longrightarrow>
           bollinger curr_p last_bar l = l\<lparr>msg := msg_bb_lower, alert_level := ''warning''\<rparr>"
    and "\<not> up < curr_p \<Longrightarrow> \<not> curr_p < lo \<Longrightarrow> bollinger curr_p last_bar l = l"
  using assms by (simp_all add: bollinger_def upper_break_def lower_break_def fless_def)

subsection \<open>The result dictionary\<close>

lemma display_strings_distinct:
  shows "bb_pos_inside \<noteq> bb_pos_outside"
    and "macd_status_bull \<noteq> macd_status_bear"
    and "trend_bull \<noteq> trend_bear"
  by (simp_all add: bb_pos_inside_def bb_pos_outside_def macd_status_bull_def
      macd_status_bear_def trend_bull_def trend_bear_def)

lemma make_info_fields:
  assumes "BB_Lower last_bar = Some lo" and "BB_Upper last_bar = Some up"
  shows "price (make_info last_bar curr_p l) = curr_p"
    and "bb_pos (make_info last_bar curr_p l) =
           (if lo < curr_p \<and> curr_p < up then bb_pos_inside else bb_pos_outside)"
    and "macd_status (make_info last_bar curr_p l) =
           (if 0 < MACD_Hist last_bar then macd_status_bull else macd_status_bear)"
    and "trend (make_info last_bar curr_p l) =
           (if EMA_S last_bar < EMA_F last_bar then trend_bull else trend_bear)"
  using assms by (simp_all add: make_info_def fless_def)

lemma Close_last_row:
  assumes "35 \<le> length df"
  shows "Close (enrich df ! (length df - 1)) = Close (last df)"
proof -
  have "df \<noteq> []" and "length df - 1 < length df"
    using assms by auto
  then show ?thesis
    by (simp add: enrich_nth last_conv_nth)
qed

lemma tail_volume:
  assumes "35 \<le> length df"
  shows "length (tail 10 (map Volume (enrich df))) = 10"
    and "mean (tail 10 (map Volume (enrich df))) \<noteq> None"
proof -
  show n: "length (tail 10 (map Volume (enrich df))) = 10"
    using assms by (simp add: tail_def)
  then have "tail 10 (map Volume (enrich df)) \<noteq> []"
    by auto
  then show "mean (tail 10 (map Volume (enrich df))) \<noteq> None"
    by (simp add: mean_def)
qed

subsection \<open>One call and its effect on the session\<close>

lemma notify_cases:
  "notify net df last_bar symbol curr_p l s = s \<and>
     \<not> (has_trigger l \<and> last_alerts s symbol \<noteq> Some (alert_key symbol (msg l))) \<or>
   has_trigger l \<and> last_alerts s symbol \<noteq> Some (alert_key symbol (msg l)) \<and>
     last_alerts (notify net df last_bar symbol curr_p l s) =
       (last_alerts s)(symbol \<mapsto> alert_key symbol (msg l)) \<and>
     sent (notify net df last_bar symbol curr_p l s) =
       sent s @ [make_tg_text df last_bar symbol (msg l) curr_p]"
proof (cases "has_trigger l \<and> last_alerts s symbol \<noteq> Some (alert_key symbol (msg l))")
  case True
  then show ?thesis
    using notify_fires(1,2) [of l s symbol net df last_bar curr_p] by simp
next
  case False
  then show ?thesis
    using notify_quiet [of l s symbol net df last_bar curr_p] by blast
qed

lemma message_strings_distinct:
  shows "msg_bb_upper \<noteq> msg_bb_lower"
    and "msg_strong_buy \<noteq> msg_death_cross"
  by (simp_all add: msg_bb_upper_def msg_bb_lower_def msg_strong_buy_def msg_death_cross_def)

subsection \<open>The run on the series with a cross and a breakout\<close>

lemma buy_breakout_run:
  "analyze_strategy net (Some df_buy_breakout) symbol s =
     Inr (Some (enrich df_buy_breakout,
                make_info (enrich df_buy_breakout ! 34) (Close (enrich df_buy_breakout ! 34))
                  \<lparr>msg = msg_bb_upper, alert_level = ''warning'', has_trigger = True\<rparr>),
          notify net (enrich df_buy_breakout) (enrich df_buy_breakout ! 34) symbol
            (Close (enrich df_buy_breakout ! 34))
            \<lparr>msg = msg_bb_upper, alert_level = ''warning'', has_trigger = True\<rparr> s)"
proof -
  have n: "35 \<le> length df_buy_breakout"
    by simp
  show ?thesis
    using analyze_strategy_long [OF n, of net symbol s] by (simp add: buy_breakout_locals)
qed

lemma buy_breakout_session:
  assumes "last_alerts s symbol \<noteq> Some (alert_key symbol msg_bb_upper)"
  shows "last_alerts (snd (projr (analyze_strategy net (Some df_buy_breakout) symbol s))) =
           (last_alerts s)(symbol \<mapsto> alert_key symbol msg_bb_upper)"
    and "sent (snd (projr (analyze_strategy net (Some df_buy_breakout) symbol s))) =
           sent s @ [make_tg_text (enrich df_buy_breakout) (enrich df_buy_breakout ! 34) symbol
                       msg_bb_upper (Close (enrich df_buy_breakout ! 34))]"
    and "delivered (snd (projr (analyze_strategy net (Some df_buy_breakout) symbol s))) =
           (if net (make_tg_text (enrich df_buy_breakout) (enrich df_buy_breakout ! 34) symbol
                      msg_bb_upper (Close (enrich df_buy_breakout ! 34))) = None
            then delivered s @ [make_tg_text (enrich df_buy_breakout) (enrich df_buy_breakout ! 34)
                                  symbol msg_bb_upper (Close (enrich df_buy_breakout ! 34))]
            else delivered s)"
    and "info_msg (snd (the (fst (projr (analyze_strategy net (Some df_buy_breakout) symbol s))))) =
           msg_bb_upper"
proof -
  define l where "l = \<lparr>msg = msg_bb_upper, alert_level = ''warning'', has_trigger = True\<rparr>"
  have t: "has_trigger l" and m: "msg l = msg_bb_upper"
    by (simp_all add: l_def)
  have ne: "last_alerts s symbol \<noteq> Some (alert_key symbol (msg l))"
    using assms by (simp add: m)
  note f = notify_fires [OF t ne, of net "enrich df_buy_breakout" "enrich df_buy_breakout ! 34"
      "Close (enrich df_buy_breakout ! 34)", unfolded m]
  show "last_alerts (snd (projr (analyze_strategy net (Some df_buy_breakout) symbol s))) =
           (last_alerts s)(symbol \<mapsto> alert_key symbol msg_bb_upper)"
    using f(1) by (simp add: buy_breakout_run l_def)
  show "sent (snd (projr (analyze_strategy net (Some df_buy_breakout) symbol s))) =
           sent s @ [make_tg_text (enrich df_buy_breakout) (enrich df_buy_breakout ! 34) symbol
                       msg_bb_upper (Close (enrich df_buy_breakout ! 34))]"
    using f(2) by (simp add: buy_breakout_run l_def)
  show "delivered (snd (projr (analyze_strategy net (Some df_buy_breakout) symbol s))) =
           (if net (make_tg_text (enrich df_buy_breakout) (enrich df_buy_breakout ! 34) symbol
                      msg_bb_upper (Close (enrich df_buy_breakout ! 34))) = None
            then delivered s @ [make_tg_text (enrich df_buy_breakout) (enrich df_buy_breakout ! 34)
                                  symbol msg_bb_upper (Close (enrich df_buy_breakout ! 34))]
            else delivered s)"
    using f(3) by (simp add: buy_breakout_run l_def)
  show "info_msg (snd (the (fst (projr (analyze_strategy net (Some df_buy_breakout) symbol s))))) =
           msg_bb_upper"
    by (simp add: buy_breakout_run)
qed

subsection \<open>A constant close\<close>

lemma closes_constant:
  assumes "\<forall>b\<in>set df. Close b = c"
  shows "map Close df = replicate (length df) c"
proof -
  have "map Close df = map (\<lambda>b. c) df"
    using assms by (intro map_cong) simp_all
  then show ?thesis
    by (simp add: map_replicate_const)
qed

lemma map2_minus_replicate:
  "map2 (-) (replicate n a) (replicate n b) = replicate n (a - b :: real)"
  by (simp add: zip_replicate)

lemma mean_replicate: "0 < n \<Longrightarrow> mean (replicate n c) = Some c"
  by (simp add: mean_def sum_list_replicate)

lemma std_replicate: "2 \<le> n \<Longrightarrow> std (replicate n c) = Some 0"
  by (simp add: std_def Let_def sum_list_replicate)

lemma constant_row:
  assumes cl: "map Close df = replicate (length df) c" and i: "i < length df"
  shows "EMA_F (enrich df ! i) = c" and "EMA_S (enrich df ! i) = c"
    and "MACD (enrich df ! i) = 0" and "Signal_Line (enrich df ! i) = 0"
    and "MACD_Hist (enrich df ! i) = 0"
  using i by (simp_all add: enrich_nth cl ewm_mean_replicate map2_minus_replicate)

lemma constant_close:
  assumes cl: "map Close df = replicate (length df) c" and i: "i < length df"
  shows "Close (enrich df ! i) = c"
proof -
  have "Close (enrich df ! i) = map Close df ! i"
    using i by (simp add: enrich_nth)
  then show ?thesis
    using i by (simp add: cl)
qed

lemma constant_bands:
  assumes cl: "map Close df = replicate (length df) c" and i: "19 \<le> i" "i < length df"
  shows "BB_Mid (enrich df ! i) = Some c" and "BB_Upper (enrich df ! i) = Some c"
    and "BB_Lower (enrich df ! i) = Some c"
proof -
  have w: "take 20 (drop (i + 1 - 20) (replicate (length df) c)) = replicate 20 c"
    using i by (simp add: min_def)
  have m: "rolling_mean 20 (map Close df) ! i = Some c"
    using i by (simp add: rolling_mean_def rolling_nth cl w mean_replicate)
  have sd: "rolling_std 20 (map Close df) ! i = Some 0"
    using i by (simp add: rolling_std_def rolling_nth cl w std_replicate)
  show "BB_Mid (enrich df ! i) = Some c" and "BB_Upper (enrich df ! i) = Some c"
    and "BB_Lower (enrich df ! i) = Some c"
    using i(2) by (simp_all add: enrich_nth m sd fadd_def fsub_def fscale_def)
qed

section \<open>The guard of line 43\<close>

text \<open>
  C1. For a missing series and for every series with fewer than 35 bars, whatever its
  content, \<^verbatim>\<open>analyze_strategy\<close> returns \<^verbatim>\<open>(None, None)\<close>: no result. The session
  comes back as it went in, so nothing was classified, no notification was sent and
  \<^verbatim>\<open>last_alerts\<close> is unchanged.
\<close>

theorem short_series_no_result:
  assumes "df_in = None \<or> (\<exists>df. df_in = Some df \<and> length df < 35)"
  shows "analyze_strategy net df_in symbol s = Inr (None, s)"
  using assms by (auto simp add: analyze_strategy_None analyze_strategy_short)

theorem short_series_no_result_witness:
  "analyze_strategy net_ok None ''AAPL'' session0 = Inr (None, session0) \<and>
   length (bars (replicate 34 100)) < 35 \<and>
   analyze_strategy net_ok (Some (bars (replicate 34 100))) ''AAPL'' session0 = Inr (None, session0)"
proof -
  have n: "length (bars (replicate 34 100)) < 35"
    by (simp add: bars_def)
  have a: "analyze_strategy net_ok None ''AAPL'' session0 = Inr (None, session0)"
    using short_series_no_result [of None net_ok "''AAPL''" session0] by simp
  have b: "analyze_strategy net_ok (Some (bars (replicate 34 100))) ''AAPL'' session0
             = Inr (None, session0)"
    using short_series_no_result [of "Some (bars (replicate 34 100))" net_ok "''AAPL''" session0] n
    by simp
  show ?thesis using n a b by simp
qed

section \<open>The EMA crossover\<close>

text \<open>
  C2. For every series of at least 35 bars the crossover step (lines 68-80) classifies by
  the last two rows of the enriched frame, \<open>prev_bar\<close> at position -2 and \<open>last_bar\<close> at
  position -1, whose \<^verbatim>\<open>EMA_F\<close>, \<^verbatim>\<open>EMA_S\<close> and \<^verbatim>\<open>MACD_Hist\<close> are the 9-span and 21-span
  averages of \<^verbatim>\<open>Close\<close> and the MACD histogram at these positions. If the fast average
  was at or below the slow one and is now above it, the message is "strong buy
  (EMA+MACD)" with level \<^verbatim>\<open>error\<close> (the spec's critical) when the histogram is positive
  and "golden cross" with level \<^verbatim>\<open>warning\<close> otherwise; else, if it was at or above and
  is now below, the message is "death cross" with level \<^verbatim>\<open>error\<close>; in these three
  cases \<^verbatim>\<open>has_trigger\<close> is true. Otherwise the message is "trend stable" with level
  \<^verbatim>\<open>success\<close> (the spec's info) and \<^verbatim>\<open>has_trigger\<close> is false. The function's result
  is built from this classification.
\<close>

theorem crossover_by_last_two_bars:
  assumes "35 \<le> length df"
  shows "\<exists>prev_bar last_bar.
    iloc (enrich df) (- 2) = Inr prev_bar \<and> iloc (enrich df) (- 1) = Inr last_bar \<and>
    EMA_F prev_bar = ewm_mean 9 (map Close df) ! (length df - 2) \<and>
    EMA_S prev_bar = ewm_mean 21 (map Close df) ! (length df - 2) \<and>
    EMA_F last_bar = ewm_mean 9 (map Close df) ! (length df - 1) \<and>
    EMA_S last_bar = ewm_mean 21 (map Close df) ! (length df - 1) \<and>
    MACD_Hist last_bar = MACD last_bar - Signal_Line last_bar \<and>
    crossover prev_bar last_bar =
      (if EMA_F prev_bar \<le> EMA_S prev_bar \<and> EMA_S last_bar < EMA_F last_bar then
         if 0 < MACD_Hist last_bar
         then \<lparr>msg = msg_strong_buy, alert_level = ''error'', has_trigger = True\<rparr>
         else \<lparr>msg = msg_golden_cross, alert_level = ''warning'', has_trigger = True\<rparr>
       else if EMA_S prev_bar \<le> EMA_F prev_bar \<and> EMA_F last_bar < EMA_S last_bar
       then \<lparr>msg = msg_death_cross, alert_level = ''error'', has_trigger = True\<rparr>
       else \<lparr>msg = msg_trend_stable, alert_level = ''success'', has_trigger = False\<rparr>) \<and>
    analyze_strategy net (Some df) symbol s =
      Inr (Some (enrich df,
                 make_info last_bar (Close last_bar)
                   (bollinger (Close last_bar) last_bar (crossover prev_bar last_bar))),
           notify net (enrich df) last_bar symbol (Close last_bar)
             (bollinger (Close last_bar) last_bar (crossover prev_bar last_bar)) s)"
proof -
  let ?p = "enrich df ! (length df - 2)" and ?l = "enrich df ! (length df - 1)"
  have i: "length df - 2 < length df" "length df - 1 < length df"
    using assms by simp_all
  have "iloc (enrich df) (- 2) = Inr ?p" "iloc (enrich df) (- 1) = Inr ?l"
    using iloc_enrich [OF assms] by simp_all
  moreover have "EMA_F ?p = ewm_mean 9 (map Close df) ! (length df - 2)"
    "EMA_S ?p = ewm_mean 21 (map Close df) ! (length df - 2)"
    "EMA_F ?l = ewm_mean 9 (map Close df) ! (length df - 1)"
    "EMA_S ?l = ewm_mean 21 (map Close df) ! (length df - 1)"
    "MACD_Hist ?l = MACD ?l - Signal_Line ?l"
    using i by (simp_all add: enrich_nth)
  moreover have "crossover ?p ?l =
      (if EMA_F ?p \<le> EMA_S ?p \<and> EMA_S ?l < EMA_F ?l then
         if 0 < MACD_Hist ?l
         then \<lparr>msg = msg_strong_buy, alert_level = ''error'', has_trigger = True\<rparr>
         else \<lparr>msg = msg_golden_cross, alert_level = ''warning'', has_trigger = True\<rparr>
       else if EMA_S ?p \<le> EMA_F ?p \<and> EMA_F ?l < EMA_S ?l
       then \<lparr>msg = msg_death_cross, alert_level = ''error'', has_trigger = True\<rparr>
       else \<lparr>msg = msg_trend_stable, alert_level = ''success'', has_trigger = False\<rparr>)"
    by (auto simp add: crossover_def bullish_cross_def bearish_cross_def Let_def)
  moreover note analyze_strategy_long [OF assms, of net symbol s]
  ultimately show ?thesis
    by blast
qed

theorem crossover_by_last_two_bars_witness:
  "35 \<le> length df_strong_buy \<and> 35 \<le> length df_golden \<and>
   35 \<le> length df_death \<and> 35 \<le> length df_flat \<and>
   crossover (enrich df_strong_buy ! 33) (enrich df_strong_buy ! 34) =
     \<lparr>msg = msg_strong_buy, alert_level = ''error'', has_trigger = True\<rparr> \<and>
   crossover (enrich df_golden ! 33) (enrich df_golden ! 34) =
     \<lparr>msg = msg_golden_cross, alert_level = ''warning'', has_trigger = True\<rparr> \<and>
   crossover (enrich df_death ! 33) (enrich df_death ! 34) =
     \<lparr>msg = msg_death_cross, alert_level = ''error'', has_trigger = True\<rparr> \<and>
   crossover (enrich df_flat ! 33) (enrich df_flat ! 34) =
     \<lparr>msg = msg_trend_stable, alert_level = ''success'', has_trigger = False\<rparr>"
proof -
  have step: "crossover (enrich df ! 33) (enrich df ! 34) =
        (if EMA_F (enrich df ! 33) \<le> EMA_S (enrich df ! 33) \<and>
            EMA_S (enrich df ! 34) < EMA_F (enrich df ! 34) then
           if 0 < MACD_Hist (enrich df ! 34)
           then \<lparr>msg = msg_strong_buy, alert_level = ''error'', has_trigger = True\<rparr>
           else \<lparr>msg = msg_golden_cross, alert_level = ''warning'', has_trigger = True\<rparr>
         else if EMA_S (enrich df ! 33) \<le> EMA_F (enrich df ! 33) \<and>
                 EMA_F (enrich df ! 34) < EMA_S (enrich df ! 34)
         then \<lparr>msg = msg_death_cross, alert_level = ''error'', has_trigger = True\<rparr>
         else \<lparr>msg = msg_trend_stable, alert_level = ''success'', has_trigger = False\<rparr>)"
    if n: "length df = 35" for df
  proof -
    obtain p l where il: "iloc (enrich df) (- 2) = Inr p" "iloc (enrich df) (- 1) = Inr l"
      and c: "crossover p l =
        (if EMA_F p \<le> EMA_S p \<and> EMA_S l < EMA_F l then
           if 0 < MACD_Hist l
           then \<lparr>msg = msg_strong_buy, alert_level = ''error'', has_trigger = True\<rparr>
           else \<lparr>msg = msg_golden_cross, alert_level = ''warning'', has_trigger = True\<rparr>
         else if EMA_S p \<le> EMA_F p \<and> EMA_F l < EMA_S l
         then \<lparr>msg = msg_death_cross, alert_level = ''error'', has_trigger = True\<rparr>
         else \<lparr>msg = msg_trend_stable, alert_level = ''success'', has_trigger = False\<rparr>)"
      using crossover_by_last_two_bars [of df net_ok "''AAPL''" session0] n
      by auto
    have "p = enrich df ! 33" "l = enrich df ! 34"
      using example_bars [OF n il] by simp_all
    then show ?thesis
      using c by simp
  qed
  have a: "crossover (enrich df_strong_buy ! 33) (enrich df_strong_buy ! 34) =
     \<lparr>msg = msg_strong_buy, alert_level = ''error'', has_trigger = True\<rparr>"
    using step [of df_strong_buy] strong_buy_rows by (simp add: bullish_cross_def)
  have b: "crossover (enrich df_golden ! 33) (enrich df_golden ! 34) =
     \<lparr>msg = msg_golden_cross, alert_level = ''warning'', has_trigger = True\<rparr>"
    using step [of df_golden] golden_rows by (simp add: bullish_cross_def)
  have c: "crossover (enrich df_death ! 33) (enrich df_death ! 34) =
     \<lparr>msg = msg_death_cross, alert_level = ''error'', has_trigger = True\<rparr>"
    using step [of df_death] death_rows by (simp add: bullish_cross_def bearish_cross_def)
  have d: "crossover (enrich df_flat ! 33) (enrich df_flat ! 34) =
     \<lparr>msg = msg_trend_stable, alert_level = ''success'', has_trigger = False\<rparr>"
    using step [of df_flat] flat_rows by (simp add: bullish_cross_def bearish_cross_def)
  show ?thesis
    using a b c d by simp
qed

section \<open>The Bollinger breakout\<close>

text \<open>
  C3. For every series of at least 35 bars the bands of the last row are defined, and
  the breakout step (lines 83-86) replaces the message and the level of the crossover step
  without touching \<^verbatim>\<open>has_trigger\<close>: a close above the upper band gives "touching upper
  band (overbought)", otherwise a close below the lower band gives "touching lower band
  (oversold)", both with level \<^verbatim>\<open>warning\<close>, otherwise message and level stand. The
  result carries the final message and level. Without a crossover \<^verbatim>\<open>has_trigger\<close> is
  false and the session is unchanged whatever it holds: no notification. With a crossover
  \<^verbatim>\<open>has_trigger\<close> stays true through a breakout, and unless \<^verbatim>\<open>last_alerts\<close> already
  holds the key of the final (breakout) message, exactly one notification carrying that
  message is sent and that key is stored.
\<close>

theorem bollinger_overrides_message_only:
  assumes "35 \<le> length df"
  shows "\<exists>prev_bar last_bar lo up c l i s'.
    iloc (enrich df) (- 2) = Inr prev_bar \<and> iloc (enrich df) (- 1) = Inr last_bar \<and>
    BB_Lower last_bar = Some lo \<and> BB_Upper last_bar = Some up \<and>
    c = crossover prev_bar last_bar \<and> l = bollinger (Close last_bar) last_bar c \<and>
    analyze_strategy net (Some df) symbol s = Inr (Some (enrich df, i), s') \<and>
    info_msg i = msg l \<and> info_alert_level i = alert_level l \<and>
    has_trigger l = has_trigger c \<and>
    (up < Close last_bar \<longrightarrow> msg l = msg_bb_upper \<and> alert_level l = ''warning'') \<and>
    (\<not> up < Close last_bar \<and> Close last_bar < lo \<longrightarrow>
       msg l = msg_bb_lower \<and> alert_level l = ''warning'') \<and>
    (\<not> up < Close last_bar \<and> \<not> Close last_bar < lo \<longrightarrow>
       msg l = msg c \<and> alert_level l = alert_level c) \<and>
    (\<not> bullish_cross prev_bar last_bar \<and> \<not> bearish_cross prev_bar last_bar \<longrightarrow>
       \<not> has_trigger l \<and> s' = s) \<and>
    (bullish_cross prev_bar last_bar \<or> bearish_cross prev_bar last_bar \<longrightarrow>
       has_trigger l \<and>
       (if last_alerts s symbol = Some (alert_key symbol (msg l)) then s' = s
        else (\<exists>t. tg_msg t = msg l \<and> sent s' = sent s @ [t]) \<and>
             last_alerts s' = (last_alerts s)(symbol \<mapsto> alert_key symbol (msg l))))"
proof -
  define p where "p = enrich df ! (length df - 2)"
  define l where "l = enrich df ! (length df - 1)"
  define c where "c = crossover p l"
  define b where "b = bollinger (Close l) l c"
  define s2 where "s2 = notify net (enrich df) l symbol (Close l) b s"
  define i where "i = make_info l (Close l) b"
  obtain lo up where bands: "BB_Lower l = Some lo" "BB_Upper l = Some up"
    using bands_last [OF assms] unfolding l_def by blast
  have il: "iloc (enrich df) (- 2) = Inr p" "iloc (enrich df) (- 1) = Inr l"
    using iloc_enrich [OF assms] by (simp_all add: p_def l_def)
  have run: "analyze_strategy net (Some df) symbol s = Inr (Some (enrich df, i), s2)"
    using analyze_strategy_long [OF assms, of net symbol s]
    by (simp add: p_def l_def c_def b_def s2_def i_def)
  have inf: "info_msg i = msg b" "info_alert_level i = alert_level b"
    by (simp_all add: i_def)
  have trig: "has_trigger b = has_trigger c"
    by (simp add: b_def)
  have over1: "up < Close l \<longrightarrow> msg b = msg_bb_upper \<and> alert_level b = ''warning''"
    using bollinger_cases(1) [OF bands, of "Close l" c] by (simp add: b_def)
  have over2: "\<not> up < Close l \<and> Close l < lo \<longrightarrow>
      msg b = msg_bb_lower \<and> alert_level b = ''warning''"
    using bollinger_cases(2) [OF bands, of "Close l" c] by (simp add: b_def)
  have over3: "\<not> up < Close l \<and> \<not> Close l < lo \<longrightarrow>
      msg b = msg c \<and> alert_level b = alert_level c"
    using bollinger_cases(3) [OF bands, of "Close l" c] by (simp add: b_def)
  have quiet: "\<not> bullish_cross p l \<and> \<not> bearish_cross p l \<longrightarrow> \<not> has_trigger b \<and> s2 = s"
    by (simp add: b_def c_def s2_def crossover_has_trigger notify_quiet)
  have fire: "bullish_cross p l \<or> bearish_cross p l \<longrightarrow>
       has_trigger b \<and>
       (if last_alerts s symbol = Some (alert_key symbol (msg b)) then s2 = s
        else (\<exists>t. tg_msg t = msg b \<and> sent s2 = sent s @ [t]) \<and>
             last_alerts s2 = (last_alerts s)(symbol \<mapsto> alert_key symbol (msg b)))"
  proof
    assume "bullish_cross p l \<or> bearish_cross p l"
    then have t: "has_trigger b"
      by (simp add: b_def c_def crossover_has_trigger)
    show "has_trigger b \<and>
       (if last_alerts s symbol = Some (alert_key symbol (msg b)) then s2 = s
        else (\<exists>t. tg_msg t = msg b \<and> sent s2 = sent s @ [t]) \<and>
             last_alerts s2 = (last_alerts s)(symbol \<mapsto> alert_key symbol (msg b)))"
    proof (cases "last_alerts s symbol = Some (alert_key symbol (msg b))")
      case True
      then have "s2 = s"
        unfolding s2_def by (simp add: notify_quiet)
      then show ?thesis
        using t True by simp
    next
      case False
      have "sent s2 = sent s @ [make_tg_text (enrich df) l symbol (msg b) (Close l)]"
        "last_alerts s2 = (last_alerts s)(symbol \<mapsto> alert_key symbol (msg b))"
        unfolding s2_def using notify_fires(1,2) [OF t False] by simp_all
      moreover have "tg_msg (make_tg_text (enrich df) l symbol (msg b) (Close l)) = msg b"
        by simp
      ultimately have "(\<exists>t. tg_msg t = msg b \<and> sent s2 = sent s @ [t]) \<and>
             last_alerts s2 = (last_alerts s)(symbol \<mapsto> alert_key symbol (msg b))"
        by blast
      then show ?thesis
        using t False by simp
    qed
  qed
  have cb: "c = crossover p l" "b = bollinger (Close l) l c"
    by (simp_all add: c_def b_def)
  show ?thesis
    using il bands cb run inf trig over1 over2 over3 quiet fire by blast
qed

theorem bollinger_overrides_message_only_witness:
  "35 \<le> length df_breakout_only \<and>
   (\<exists>i. analyze_strategy net_ok (Some df_breakout_only) ''AAPL'' session0 =
          Inr (Some (enrich df_breakout_only, i), session0) \<and>
        info_msg i = msg_bb_upper \<and> info_alert_level i = ''warning'') \<and>
   35 \<le> length df_buy_breakout \<and>
   (\<exists>i s'. analyze_strategy net_ok (Some df_buy_breakout) ''AAPL'' session0 =
          Inr (Some (enrich df_buy_breakout, i), s') \<and>
        info_msg i = msg_bb_upper \<and> info_alert_level i = ''warning'' \<and>
        (\<exists>t. tg_msg t = msg_bb_upper \<and> sent s' = [t]) \<and>
        last_alerts s' ''AAPL'' = Some (alert_key ''AAPL'' msg_bb_upper))"
proof -
  have step: "\<exists>i s'.
      analyze_strategy net_ok (Some df) ''AAPL'' session0 = Inr (Some (enrich df, i), s') \<and>
      info_msg i = msg b \<and> info_alert_level i = alert_level b \<and>
      (\<not> bullish_cross (enrich df ! 33) (enrich df ! 34) \<and>
       \<not> bearish_cross (enrich df ! 33) (enrich df ! 34) \<longrightarrow> s' = session0) \<and>
      (bullish_cross (enrich df ! 33) (enrich df ! 34) \<longrightarrow>
         (\<exists>t. tg_msg t = msg b \<and> sent s' = [t]) \<and>
         last_alerts s' ''AAPL'' = Some (alert_key ''AAPL'' (msg b)))"
    if n: "length df = 35"
      and b: "b = bollinger (Close (enrich df ! 34)) (enrich df ! 34)
                    (crossover (enrich df ! 33) (enrich df ! 34))"
    for df b
  proof -
    have n35: "35 \<le> length df"
      using n by simp
    obtain p l lo up c b' i s' where
      il: "iloc (enrich df) (- 2) = Inr p" "iloc (enrich df) (- 1) = Inr l"
      and cb: "c = crossover p l" "b' = bollinger (Close l) l c"
      and run: "analyze_strategy net_ok (Some df) ''AAPL'' session0 = Inr (Some (enrich df, i), s')"
      and inf: "info_msg i = msg b'" "info_alert_level i = alert_level b'"
      and quiet: "\<not> bullish_cross p l \<and> \<not> bearish_cross p l \<longrightarrow>
                    \<not> has_trigger b' \<and> s' = session0"
      and fire: "bullish_cross p l \<or> bearish_cross p l \<longrightarrow>
         has_trigger b' \<and>
         (if last_alerts session0 ''AAPL'' = Some (alert_key ''AAPL'' (msg b')) then s' = session0
          else (\<exists>t. tg_msg t = msg b' \<and> sent s' = sent session0 @ [t]) \<and>
               last_alerts s' =
                 (last_alerts session0)(''AAPL'' \<mapsto> alert_key ''AAPL'' (msg b')))"
      using bollinger_overrides_message_only [OF n35, of net_ok "''AAPL''" session0]
      by blast
    have pl: "p = enrich df ! 33" "l = enrich df ! 34"
      using example_bars [OF n il] by simp_all
    have bb: "b' = b"
      using cb pl b by simp
    have e: "last_alerts session0 ''AAPL'' \<noteq> Some (alert_key ''AAPL'' (msg b))"
      "sent session0 = []"
      by (simp_all add: session0_def)
    have "bullish_cross (enrich df ! 33) (enrich df ! 34) \<longrightarrow>
         (\<exists>t. tg_msg t = msg b \<and> sent s' = [t]) \<and>
         last_alerts s' ''AAPL'' = Some (alert_key ''AAPL'' (msg b))"
      using fire e unfolding pl bb by auto
    then show ?thesis
      using run inf quiet unfolding pl bb by blast
  qed
  have a: "\<exists>i. analyze_strategy net_ok (Some df_breakout_only) ''AAPL'' session0 =
          Inr (Some (enrich df_breakout_only, i), session0) \<and>
        info_msg i = msg_bb_upper \<and> info_alert_level i = ''warning''"
    using step [of df_breakout_only, OF _ breakout_only_locals [symmetric]] breakout_only_rows
    by auto
  have b: "\<exists>i s'. analyze_strategy net_ok (Some df_buy_breakout) ''AAPL'' session0 =
          Inr (Some (enrich df_buy_breakout, i), s') \<and>
        info_msg i = msg_bb_upper \<and> info_alert_level i = ''warning'' \<and>
        (\<exists>t. tg_msg t = msg_bb_upper \<and> sent s' = [t]) \<and>
        last_alerts s' ''AAPL'' = Some (alert_key ''AAPL'' msg_bb_upper)"
    using step [of df_buy_breakout, OF _ buy_breakout_locals [symmetric]] buy_breakout_rows
    by auto
  show ?thesis
    using a b by simp
qed

section \<open>The display fields\<close>

text \<open>
  C9. For every series of at least 35 bars the display fields of the returned
  dictionary are computed from the last row alone, whatever message and level the
  classification has reached: \<^verbatim>\<open>bb_pos\<close> is the "inside" text exactly when the close
  lies strictly between the lower and the upper band and the "outside" text otherwise,
  \<^verbatim>\<open>macd_status\<close> is the "bullish" text exactly when the MACD histogram is positive and
  the "bearish" text otherwise, \<^verbatim>\<open>trend\<close> is the "bullish" text exactly when the fast
  average is above the slow one and the "bearish" text otherwise, and \<^verbatim>\<open>price\<close> is the
  close of the last bar of the input.
\<close>

theorem display_fields_from_last_bar:
  assumes "35 \<le> length df"
  shows "\<exists>last_bar lo up i s'.
    iloc (enrich df) (- 1) = Inr last_bar \<and>
    BB_Lower last_bar = Some lo \<and> BB_Upper last_bar = Some up \<and>
    analyze_strategy net (Some df) symbol s = Inr (Some (enrich df, i), s') \<and>
    (bb_pos i = bb_pos_inside \<longleftrightarrow> lo < Close last_bar \<and> Close last_bar < up) \<and>
    (bb_pos i = bb_pos_outside \<longleftrightarrow> \<not> (lo < Close last_bar \<and> Close last_bar < up)) \<and>
    (macd_status i = macd_status_bull \<longleftrightarrow> 0 < MACD_Hist last_bar) \<and>
    (macd_status i = macd_status_bear \<longleftrightarrow> \<not> 0 < MACD_Hist last_bar) \<and>
    (trend i = trend_bull \<longleftrightarrow> EMA_S last_bar < EMA_F last_bar) \<and>
    (trend i = trend_bear \<longleftrightarrow> \<not> EMA_S last_bar < EMA_F last_bar) \<and>
    price i = Close last_bar \<and> Close last_bar = Close (last df) \<and>
    (\<forall>l. bb_pos (make_info last_bar (Close last_bar) l) = bb_pos i \<and>
         macd_status (make_info last_bar (Close last_bar) l) = macd_status i \<and>
         trend (make_info last_bar (Close last_bar) l) = trend i \<and>
         price (make_info last_bar (Close last_bar) l) = price i)"
proof -
  define p where "p = enrich df ! (length df - 2)"
  define l where "l = enrich df ! (length df - 1)"
  define b where "b = bollinger (Close l) l (crossover p l)"
  define s2 where "s2 = notify net (enrich df) l symbol (Close l) b s"
  define i where "i = make_info l (Close l) b"
  obtain lo up where bands: "BB_Lower l = Some lo" "BB_Upper l = Some up"
    using bands_last [OF assms] unfolding l_def by blast
  have il: "iloc (enrich df) (- 1) = Inr l"
    using iloc_enrich [OF assms] by (simp add: l_def)
  have run: "analyze_strategy net (Some df) symbol s = Inr (Some (enrich df, i), s2)"
    using analyze_strategy_long [OF assms, of net symbol s]
    by (simp add: p_def l_def b_def s2_def i_def)
  note f = make_info_fields [OF bands]
  have pos: "bb_pos i = bb_pos_inside \<longleftrightarrow> lo < Close l \<and> Close l < up"
    "bb_pos i = bb_pos_outside \<longleftrightarrow> \<not> (lo < Close l \<and> Close l < up)"
    using display_strings_distinct by (simp_all add: i_def f)
  have macd: "macd_status i = macd_status_bull \<longleftrightarrow> 0 < MACD_Hist l"
    "macd_status i = macd_status_bear \<longleftrightarrow> \<not> 0 < MACD_Hist l"
    using display_strings_distinct by (simp_all add: i_def f)
  have tr: "trend i = trend_bull \<longleftrightarrow> EMA_S l < EMA_F l"
    "trend i = trend_bear \<longleftrightarrow> \<not> EMA_S l < EMA_F l"
    using display_strings_distinct by (simp_all add: i_def f)
  have pr: "price i = Close l"
    by (simp add: i_def f)
  have cl: "Close l = Close (last df)"
    using Close_last_row [OF assms] by (simp add: l_def)
  have indep: "\<forall>l'. bb_pos (make_info l (Close l) l') = bb_pos i \<and>
         macd_status (make_info l (Close l) l') = macd_status i \<and>
         trend (make_info l (Close l) l') = trend i \<and>
         price (make_info l (Close l) l') = price i"
    by (simp add: i_def f)
  show ?thesis
    using il bands run pos macd tr pr cl indep by blast
qed

theorem display_fields_from_last_bar_witness:
  "35 \<le> length df_strong_buy \<and>
   (\<exists>i s'. analyze_strategy net_ok (Some df_strong_buy) ''AAPL'' session0 =
             Inr (Some (enrich df_strong_buy, i), s') \<and>
           macd_status i = macd_status_bull \<and> trend i = trend_bull \<and> price i = 105)"
proof -
  have n: "35 \<le> length df_strong_buy"
    by simp
  obtain l lo up i s' where il: "iloc (enrich df_strong_buy) (- 1) = Inr l"
    and run: "analyze_strategy net_ok (Some df_strong_buy) ''AAPL'' session0 =
                Inr (Some (enrich df_strong_buy, i), s')"
    and macd: "macd_status i = macd_status_bull \<longleftrightarrow> 0 < MACD_Hist l"
    and tr: "trend i = trend_bull \<longleftrightarrow> EMA_S l < EMA_F l"
    and pr: "price i = Close l" "Close l = Close (last df_strong_buy)"
    using display_fields_from_last_bar [OF n, of net_ok "''AAPL''" session0] by blast
  have l: "l = enrich df_strong_buy ! 34"
    using il iloc_enrich(1) [OF n] by simp
  have "0 < MACD_Hist l" "EMA_S l < EMA_F l"
    using strong_buy_rows by (simp_all add: l bullish_cross_def)
  moreover have "Close (last df_strong_buy) = 105"
    by (simp add: df_strong_buy_def bars_def)
  ultimately show ?thesis
    using n run macd tr pr by auto
qed

section \<open>Positions and windows\<close>

text \<open>
  C10. For every series of at least 35 bars every positional access of
  \<^verbatim>\<open>analyze_strategy\<close> is in range: rows -1 and -2 of the enriched frame exist, the
  20-bar rolling window at the last row is full, so the three bands there are defined,
  and \<^verbatim>\<open>tail(10)\<close> of the volume column has ten values, so its mean is defined. The
  function returns a result and never \<^verbatim>\<open>IndexError\<close>.
\<close>

theorem positional_accesses_in_bounds:
  assumes "35 \<le> length df"
  shows "length df - 1 < length (enrich df) \<and>
    iloc (enrich df) (- 1) = Inr (enrich df ! (length df - 1)) \<and>
    length df - 2 < length (enrich df) \<and>
    iloc (enrich df) (- 2) = Inr (enrich df ! (length df - 2)) \<and>
    (\<exists>win. rolling 20 (map Close df) ! (length df - 1) = Some win \<and> length win = 20) \<and>
    (\<exists>m lo up. BB_Mid (enrich df ! (length df - 1)) = Some m \<and>
       BB_Lower (enrich df ! (length df - 1)) = Some lo \<and>
       BB_Upper (enrich df ! (length df - 1)) = Some up) \<and>
    length (tail 10 (map Volume (enrich df))) = 10 \<and>
    mean (tail 10 (map Volume (enrich df))) \<noteq> None \<and>
    (\<exists>i s'. analyze_strategy net (Some df) symbol s = Inr (Some (enrich df, i), s')) \<and>
    analyze_strategy net (Some df) symbol s \<noteq> Inl IndexError"
proof -
  have a: "length df - 1 < length (enrich df)" "length df - 2 < length (enrich df)"
    using assms by simp_all
  have w: "\<exists>win. rolling 20 (map Close df) ! (length df - 1) = Some win \<and> length win = 20"
    using assms length_window [of 20 "length df - 1" "map Close df"]
    by (simp add: rolling_nth)
  have b: "\<exists>m lo up. BB_Mid (enrich df ! (length df - 1)) = Some m \<and>
       BB_Lower (enrich df ! (length df - 1)) = Some lo \<and>
       BB_Upper (enrich df ! (length df - 1)) = Some up"
    using bands_defined [of "length df - 1" df] assms by fastforce
  have r: "\<exists>i s'. analyze_strategy net (Some df) symbol s = Inr (Some (enrich df, i), s')"
    using analyze_strategy_long [OF assms, of net symbol s] by blast
  then have "analyze_strategy net (Some df) symbol s \<noteq> Inl IndexError"
    by auto
  then show ?thesis
    using a iloc_enrich [OF assms] w b tail_volume [OF assms] r by blast
qed

theorem positional_accesses_in_bounds_witness:
  "35 \<le> length df_flat \<and>
   iloc (enrich df_flat) (- 1) = Inr (enrich df_flat ! 34) \<and>
   iloc (enrich df_flat) (- 2) = Inr (enrich df_flat ! 33) \<and>
   analyze_strategy net_ok (Some df_flat) ''AAPL'' session0 \<noteq> Inl IndexError"
proof -
  have n: "35 \<le> length df_flat"
    by simp
  show ?thesis
    using n positional_accesses_in_bounds [OF n, of net_ok "''AAPL''" session0] by simp
qed

section \<open>The de-duplication of notifications\<close>

text \<open>
  C4. Calling \<^verbatim>\<open>analyze_strategy\<close> twice in succession with the same series for the same
  symbol, the second call starting from the session the first one left, sends at most
  one notification: the first call sends none or one, and when it sends one it stores
  the key of the message it sent; the second call returns the same result and leaves the
  session as it found it. A later evaluation for the same symbol whose final message
  triggers and differs from the message whose key is stored sends a notification again
  and stores the new key.
\<close>

theorem notification_at_most_once_per_key:
  "\<exists>r s1.
     analyze_strategy net df_in symbol s = Inr (r, s1) \<and>
     analyze_strategy net df_in symbol s1 = Inr (r, s1) \<and>
     (sent s1 = sent s \<or>
      (\<exists>t. sent s1 = sent s @ [t] \<and>
           last_alerts s1 symbol = Some (alert_key symbol (tg_msg t)))) \<and>
     (\<forall>df2 prev_bar last_bar l m.
        last_alerts s1 symbol = Some (alert_key symbol m) \<and> 35 \<le> length df2 \<and>
        iloc (enrich df2) (- 2) = Inr prev_bar \<and> iloc (enrich df2) (- 1) = Inr last_bar \<and>
        l = bollinger (Close last_bar) last_bar (crossover prev_bar last_bar) \<and>
        has_trigger l \<and> msg l \<noteq> m \<longrightarrow>
        (\<exists>i s2 t. analyze_strategy net (Some df2) symbol s1 = Inr (Some (enrich df2, i), s2) \<and>
           sent s2 = sent s1 @ [t] \<and> tg_msg t = msg l \<and>
           last_alerts s2 symbol = Some (alert_key symbol (msg l))))"
proof -
  have later: "\<exists>i s2 t. analyze_strategy net (Some df2) symbol s1 = Inr (Some (enrich df2, i), s2) \<and>
           sent s2 = sent s1 @ [t] \<and> tg_msg t = msg l \<and>
           last_alerts s2 symbol = Some (alert_key symbol (msg l))"
    if h: "last_alerts s1 symbol = Some (alert_key symbol m)" "35 \<le> length df2"
      "iloc (enrich df2) (- 2) = Inr prev_bar" "iloc (enrich df2) (- 1) = Inr last_bar"
      "l = bollinger (Close last_bar) last_bar (crossover prev_bar last_bar)"
      "has_trigger l" "msg l \<noteq> m"
    for s1 df2 prev_bar last_bar l m
  proof -
    have pl: "prev_bar = enrich df2 ! (length df2 - 2)" "last_bar = enrich df2 ! (length df2 - 1)"
      using h(3,4) iloc_enrich [OF h(2)] by simp_all
    have ne: "last_alerts s1 symbol \<noteq> Some (alert_key symbol (msg l))"
      using h(1,7) by simp
    define s2 where "s2 = notify net (enrich df2) last_bar symbol (Close last_bar) l s1"
    have run: "analyze_strategy net (Some df2) symbol s1 =
        Inr (Some (enrich df2, make_info last_bar (Close last_bar) l), s2)"
      using analyze_strategy_long [OF h(2), of net symbol s1] by (simp add: pl h(5) s2_def)
    have "sent s2 = sent s1 @ [make_tg_text (enrich df2) last_bar symbol (msg l) (Close last_bar)]"
      "last_alerts s2 symbol = Some (alert_key symbol (msg l))"
      unfolding s2_def using notify_fires(1,2) [OF h(6) ne] by simp_all
    moreover have "tg_msg (make_tg_text (enrich df2) last_bar symbol (msg l) (Close last_bar)) = msg l"
      by simp
    ultimately show ?thesis
      using run by blast
  qed
  have twice: "\<exists>r s1.
     analyze_strategy net df_in symbol s = Inr (r, s1) \<and>
     analyze_strategy net df_in symbol s1 = Inr (r, s1) \<and>
     (sent s1 = sent s \<or>
      (\<exists>t. sent s1 = sent s @ [t] \<and>
           last_alerts s1 symbol = Some (alert_key symbol (tg_msg t))))"
  proof (cases "df_in = None \<or> (\<exists>df. df_in = Some df \<and> length df < 35)")
    case True
    then have "analyze_strategy net df_in symbol s = Inr (None, s)"
      by (auto simp add: analyze_strategy_None analyze_strategy_short)
    then show ?thesis
      by auto
  next
    case False
    then obtain df where df: "df_in = Some df" "35 \<le> length df"
      by (cases df_in) auto
    define last_bar where "last_bar = enrich df ! (length df - 1)"
    define l where "l = bollinger (Close last_bar) last_bar
                          (crossover (enrich df ! (length df - 2)) last_bar)"
    define s1 where "s1 = notify net (enrich df) last_bar symbol (Close last_bar) l s"
    have run: "analyze_strategy net df_in symbol s' =
        Inr (Some (enrich df, make_info last_bar (Close last_bar) l),
             notify net (enrich df) last_bar symbol (Close last_bar) l s')" for s'
      using analyze_strategy_long [OF df(2), of net symbol s']
      by (simp add: df(1) last_bar_def l_def)
    have again: "notify net (enrich df) last_bar symbol (Close last_bar) l s1 = s1"
      unfolding s1_def by (rule notify_twice)
    have "sent s1 = sent s \<or>
      (\<exists>t. sent s1 = sent s @ [t] \<and>
           last_alerts s1 symbol = Some (alert_key symbol (tg_msg t)))"
      using notify_cases [of net "enrich df" last_bar symbol "Close last_bar" l s]
      unfolding s1_def [symmetric] by auto
    then show ?thesis
      using run [of s] run [of s1] again unfolding s1_def [symmetric] by auto
  qed
  then obtain r s1 where a: "analyze_strategy net df_in symbol s = Inr (r, s1)"
     "analyze_strategy net df_in symbol s1 = Inr (r, s1)"
     "sent s1 = sent s \<or>
      (\<exists>t. sent s1 = sent s @ [t] \<and>
           last_alerts s1 symbol = Some (alert_key symbol (tg_msg t)))"
    by blast
  show ?thesis
    using a later [of s1] by blast
qed

theorem notification_at_most_once_per_key_witness:
  "\<exists>r s1 i s2 t1 t2.
     analyze_strategy net_ok (Some df_buy_breakout) ''AAPL'' session0 = Inr (r, s1) \<and>
     analyze_strategy net_ok (Some df_buy_breakout) ''AAPL'' s1 = Inr (r, s1) \<and>
     sent s1 = [t1] \<and> tg_msg t1 = msg_bb_upper \<and>
     35 \<le> length df_death_breakout \<and>
     analyze_strategy net_ok (Some df_death_breakout) ''AAPL'' s1 =
       Inr (Some (enrich df_death_breakout, i), s2) \<and>
     sent s2 = [t1, t2] \<and> tg_msg t2 = msg_bb_lower"
proof -
  define l1 where "l1 = \<lparr>msg = msg_bb_upper, alert_level = ''warning'', has_trigger = True\<rparr>"
  define l2 where "l2 = \<lparr>msg = msg_bb_lower, alert_level = ''warning'', has_trigger = True\<rparr>"
  define t1 where "t1 = make_tg_text (enrich df_buy_breakout) (enrich df_buy_breakout ! 34)
                          ''AAPL'' msg_bb_upper (Close (enrich df_buy_breakout ! 34))"
  obtain r s1 where a: "analyze_strategy net_ok (Some df_buy_breakout) ''AAPL'' session0 = Inr (r, s1)"
    "analyze_strategy net_ok (Some df_buy_breakout) ''AAPL'' s1 = Inr (r, s1)"
    and later: "\<forall>df2 prev_bar last_bar l m.
        last_alerts s1 ''AAPL'' = Some (alert_key ''AAPL'' m) \<and> 35 \<le> length df2 \<and>
        iloc (enrich df2) (- 2) = Inr prev_bar \<and> iloc (enrich df2) (- 1) = Inr last_bar \<and>
        l = bollinger (Close last_bar) last_bar (crossover prev_bar last_bar) \<and>
        has_trigger l \<and> msg l \<noteq> m \<longrightarrow>
        (\<exists>i s2 t. analyze_strategy net_ok (Some df2) ''AAPL'' s1 =
             Inr (Some (enrich df2, i), s2) \<and>
           sent s2 = sent s1 @ [t] \<and> tg_msg t = msg l \<and>
           last_alerts s2 ''AAPL'' = Some (alert_key ''AAPL'' (msg l)))"
    using notification_at_most_once_per_key [of net_ok "Some df_buy_breakout" "''AAPL''" session0]
    by blast
  have n: "35 \<le> length df_buy_breakout" "35 \<le> length df_death_breakout"
    by simp_all
  have s1: "s1 = notify net_ok (enrich df_buy_breakout) (enrich df_buy_breakout ! 34) ''AAPL''
                   (Close (enrich df_buy_breakout ! 34)) l1 session0"
    using a(1) analyze_strategy_long [OF n(1), of net_ok "''AAPL''" session0]
    by (simp add: buy_breakout_locals l1_def)
  have ne: "last_alerts session0 ''AAPL'' \<noteq> Some (alert_key ''AAPL'' (msg l1))"
    by (simp add: session0_def)
  have t: "has_trigger l1"
    by (simp add: l1_def)
  have f: "sent s1 = [t1]" "last_alerts s1 ''AAPL'' = Some (alert_key ''AAPL'' msg_bb_upper)"
    unfolding s1 using notify_fires(1,2) [OF t ne]
    by (simp_all add: l1_def t1_def session0_def)
  have t1: "tg_msg t1 = msg_bb_upper"
    by (simp add: t1_def)
  have il: "iloc (enrich df_death_breakout) (- 2) = Inr (enrich df_death_breakout ! 33)"
    "iloc (enrich df_death_breakout) (- 1) = Inr (enrich df_death_breakout ! 34)"
    using iloc_enrich [OF n(2)] by simp_all
  have "\<exists>i s2 t. analyze_strategy net_ok (Some df_death_breakout) ''AAPL'' s1 =
             Inr (Some (enrich df_death_breakout, i), s2) \<and>
           sent s2 = sent s1 @ [t] \<and> tg_msg t = msg l2 \<and>
           last_alerts s2 ''AAPL'' = Some (alert_key ''AAPL'' (msg l2))"
    using later [rule_format, of msg_bb_upper df_death_breakout "enrich df_death_breakout ! 33"
        "enrich df_death_breakout ! 34" l2]
      f(2) n(2) il death_breakout_locals message_strings_distinct(1)
    by (simp add: l2_def)
  then obtain i s2 t2 where "analyze_strategy net_ok (Some df_death_breakout) ''AAPL'' s1 =
             Inr (Some (enrich df_death_breakout, i), s2)"
    "sent s2 = [t1, t2]" "tg_msg t2 = msg_bb_lower"
    using f(1) by (auto simp add: l2_def)
  then show ?thesis
    using a f(1) t1 n(2) by blast
qed

section \<open>The alert key\<close>

text \<open>
  C5, as the spec states it: the key is the symbol, then "::", then the final message.
  The source builds the key with one underscore (line 89). On the series with a bullish
  cross and an upper breakout, evaluated for AAPL on the empty session, the final message
  is the upper-band text and the key stored is "AAPL_" followed by that text, which is not
  "AAPL::" followed by it.
\<close>

theorem alert_key_double_colon_counterexample:
  "info_msg (snd (the (fst (projr
      (analyze_strategy net_ok (Some df_buy_breakout) ''AAPL'' session0))))) = msg_bb_upper \<and>
   last_alerts (snd (projr (analyze_strategy net_ok (Some df_buy_breakout) ''AAPL'' session0)))
      ''AAPL'' = Some (''AAPL'' @ ''_'' @ msg_bb_upper) \<and>
   last_alerts (snd (projr (analyze_strategy net_ok (Some df_buy_breakout) ''AAPL'' session0)))
      ''AAPL'' \<noteq> Some (''AAPL'' @ ''::'' @ msg_bb_upper)"
proof -
  have ne: "last_alerts session0 ''AAPL'' \<noteq> Some (alert_key ''AAPL'' msg_bb_upper)"
    by (simp add: session0_def)
  show ?thesis
    using buy_breakout_session(1,4) [OF ne, of net_ok] by (simp add: alert_key_def)
qed

text \<open>
  C5, amended. For every series of at least 35 bars the key that
  \<^verbatim>\<open>analyze_strategy\<close> compares with the stored one and stores is the symbol, then one
  underscore, then the final message, the one left after the Bollinger step, which is
  also the message of the result: when \<^verbatim>\<open>has_trigger\<close> holds and the stored entry is not
  that key, the entry becomes that key and one notification is sent; otherwise the
  session is unchanged.
\<close>

theorem alert_key_joins_with_underscore:
  assumes "35 \<le> length df"
  shows "\<exists>prev_bar last_bar l i s'.
    iloc (enrich df) (- 2) = Inr prev_bar \<and> iloc (enrich df) (- 1) = Inr last_bar \<and>
    l = bollinger (Close last_bar) last_bar (crossover prev_bar last_bar) \<and>
    analyze_strategy net (Some df) symbol s = Inr (Some (enrich df, i), s') \<and>
    info_msg i = msg l \<and>
    alert_key symbol (msg l) = symbol @ ''_'' @ msg l \<and>
    (if has_trigger l \<and> last_alerts s symbol \<noteq> Some (symbol @ ''_'' @ msg l)
     then last_alerts s' = (last_alerts s)(symbol \<mapsto> symbol @ ''_'' @ msg l) \<and>
          (\<exists>t. sent s' = sent s @ [t])
     else s' = s)"
proof -
  define p where "p = enrich df ! (length df - 2)"
  define lb where "lb = enrich df ! (length df - 1)"
  define l where "l = bollinger (Close lb) lb (crossover p lb)"
  define s2 where "s2 = notify net (enrich df) lb symbol (Close lb) l s"
  define i where "i = make_info lb (Close lb) l"
  have il: "iloc (enrich df) (- 2) = Inr p" "iloc (enrich df) (- 1) = Inr lb"
    using iloc_enrich [OF assms] by (simp_all add: p_def lb_def)
  have run: "analyze_strategy net (Some df) symbol s = Inr (Some (enrich df, i), s2)"
    using analyze_strategy_long [OF assms, of net symbol s]
    by (simp add: p_def lb_def l_def s2_def i_def)
  have inf: "info_msg i = msg l"
    by (simp add: i_def)
  have key: "alert_key symbol (msg l) = symbol @ ''_'' @ msg l"
    by (simp add: alert_key_def)
  have eff: "if has_trigger l \<and> last_alerts s symbol \<noteq> Some (symbol @ ''_'' @ msg l)
     then last_alerts s2 = (last_alerts s)(symbol \<mapsto> symbol @ ''_'' @ msg l) \<and>
          (\<exists>t. sent s2 = sent s @ [t])
     else s2 = s"
    using notify_cases [of net "enrich df" lb symbol "Close lb" l s]
    unfolding s2_def [symmetric] key by auto
  have ldef: "l = bollinger (Close lb) lb (crossover p lb)"
    by (simp add: l_def)
  show ?thesis
    using il ldef run inf key eff by blast
qed

theorem alert_key_joins_with_underscore_witness:
  "35 \<le> length df_buy_breakout \<and>
   (\<exists>i s'. analyze_strategy net_ok (Some df_buy_breakout) ''AAPL'' session0 =
             Inr (Some (enrich df_buy_breakout, i), s') \<and>
           info_msg i = msg_bb_upper \<and>
           last_alerts s' ''AAPL'' = Some (''AAPL'' @ ''_'' @ msg_bb_upper) \<and>
           (\<exists>t. sent s' = [t]))"
proof -
  have n: "35 \<le> length df_buy_breakout"
    by simp
  obtain p lb l i s' where il: "iloc (enrich df_buy_breakout) (- 2) = Inr p"
    "iloc (enrich df_buy_breakout) (- 1) = Inr lb"
    and l: "l = bollinger (Close lb) lb (crossover p lb)"
    and run: "analyze_strategy net_ok (Some df_buy_breakout) ''AAPL'' session0 =
                Inr (Some (enrich df_buy_breakout, i), s')"
    and inf: "info_msg i = msg l"
    and eff: "if has_trigger l \<and> last_alerts session0 ''AAPL'' \<noteq> Some (''AAPL'' @ ''_'' @ msg l)
     then last_alerts s' = (last_alerts session0)(''AAPL'' \<mapsto> ''AAPL'' @ ''_'' @ msg l) \<and>
          (\<exists>t. sent s' = sent session0 @ [t])
     else s' = session0"
    using alert_key_joins_with_underscore [OF n, of net_ok "''AAPL''" session0] by blast
  have pl: "p = enrich df_buy_breakout ! 33" "lb = enrich df_buy_breakout ! 34"
    using example_bars [OF _ il] by simp_all
  have lv: "l = \<lparr>msg = msg_bb_upper, alert_level = ''warning'', has_trigger = True\<rparr>"
    using l buy_breakout_locals by (simp add: pl)
  have "last_alerts s' ''AAPL'' = Some (''AAPL'' @ ''_'' @ msg_bb_upper)" "\<exists>t. sent s' = [t]"
    using eff by (simp_all add: lv session0_def)
  then show ?thesis
    using n run inf lv by auto
qed

section \<open>Delivery failure\<close>

text \<open>
  C6. For every series of at least 35 bars, when the trigger condition holds
  (\<^verbatim>\<open>has_trigger\<close> is true and the stored entry differs from the alert key) and
  \<^verbatim>\<open>requests.post\<close> raises, \<^verbatim>\<open>analyze_strategy\<close> still returns its result: the
  attempt is recorded, nothing is delivered, and \<^verbatim>\<open>last_alerts\<close> is updated to the new
  key all the same. Whatever the network does, the returned result, the alert state and
  the attempts made are the same.
\<close>

theorem delivery_failure_swallowed:
  assumes "35 \<le> length df"
  shows "\<exists>prev_bar last_bar l i s'.
    iloc (enrich df) (- 2) = Inr prev_bar \<and> iloc (enrich df) (- 1) = Inr last_bar \<and>
    l = bollinger (Close last_bar) last_bar (crossover prev_bar last_bar) \<and>
    analyze_strategy net (Some df) symbol s = Inr (Some (enrich df, i), s') \<and>
    (has_trigger l \<and> last_alerts s symbol \<noteq> Some (alert_key symbol (msg l)) \<and>
     net (make_tg_text (enrich df) last_bar symbol (msg l) (Close last_bar)) \<noteq> None \<longrightarrow>
       last_alerts s' = (last_alerts s)(symbol \<mapsto> alert_key symbol (msg l)) \<and>
       sent s' = sent s @ [make_tg_text (enrich df) last_bar symbol (msg l) (Close last_bar)] \<and>
       delivered s' = delivered s) \<and>
    (\<forall>net'. \<exists>s''. analyze_strategy net' (Some df) symbol s = Inr (Some (enrich df, i), s'') \<and>
       last_alerts s'' = last_alerts s' \<and> sent s'' = sent s')"
proof -
  define p where "p = enrich df ! (length df - 2)"
  define lb where "lb = enrich df ! (length df - 1)"
  define l where "l = bollinger (Close lb) lb (crossover p lb)"
  define i where "i = make_info lb (Close lb) l"
  define st where "st = (\<lambda>n. notify n (enrich df) lb symbol (Close lb) l s)"
  have il: "iloc (enrich df) (- 2) = Inr p" "iloc (enrich df) (- 1) = Inr lb"
    using iloc_enrich [OF assms] by (simp_all add: p_def lb_def)
  have run: "analyze_strategy n (Some df) symbol s = Inr (Some (enrich df, i), st n)" for n
    using analyze_strategy_long [OF assms, of n symbol s]
    by (simp add: p_def lb_def l_def st_def i_def)
  have fail: "has_trigger l \<and> last_alerts s symbol \<noteq> Some (alert_key symbol (msg l)) \<and>
     net (make_tg_text (enrich df) lb symbol (msg l) (Close lb)) \<noteq> None \<longrightarrow>
       last_alerts (st net) = (last_alerts s)(symbol \<mapsto> alert_key symbol (msg l)) \<and>
       sent (st net) = sent s @ [make_tg_text (enrich df) lb symbol (msg l) (Close lb)] \<and>
       delivered (st net) = delivered s"
    unfolding st_def
    using notify_fires [of l s symbol net "enrich df" lb "Close lb"] by auto
  have same: "last_alerts (st n) = last_alerts (st net) \<and> sent (st n) = sent (st net)" for n
    using notify_cases [of n "enrich df" lb symbol "Close lb" l s]
      notify_cases [of net "enrich df" lb symbol "Close lb" l s]
    unfolding st_def by auto
  have all: "\<forall>net'. \<exists>s''. analyze_strategy net' (Some df) symbol s = Inr (Some (enrich df, i), s'') \<and>
       last_alerts s'' = last_alerts (st net) \<and> sent s'' = sent (st net)"
    using run same by blast
  have ldef: "l = bollinger (Close lb) lb (crossover p lb)"
    by (simp add: l_def)
  show ?thesis
    using il ldef run [of net] fail all by blast
qed

theorem delivery_failure_swallowed_witness:
  "35 \<le> length df_buy_breakout \<and>
   (\<exists>i s'. analyze_strategy net_down (Some df_buy_breakout) ''AAPL'' session0 =
             Inr (Some (enrich df_buy_breakout, i), s') \<and>
           last_alerts s' ''AAPL'' = Some (alert_key ''AAPL'' msg_bb_upper) \<and>
           length (sent s') = 1 \<and> delivered s' = [])"
proof -
  have n: "35 \<le> length df_buy_breakout"
    by simp
  obtain p lb l i s' where il: "iloc (enrich df_buy_breakout) (- 2) = Inr p"
    "iloc (enrich df_buy_breakout) (- 1) = Inr lb"
    and l: "l = bollinger (Close lb) lb (crossover p lb)"
    and run: "analyze_strategy net_down (Some df_buy_breakout) ''AAPL'' session0 =
                Inr (Some (enrich df_buy_breakout, i), s')"
    and fail: "has_trigger l \<and> last_alerts session0 ''AAPL'' \<noteq> Some (alert_key ''AAPL'' (msg l)) \<and>
       net_down (make_tg_text (enrich df_buy_breakout) lb ''AAPL'' (msg l) (Close lb)) \<noteq> None \<longrightarrow>
       last_alerts s' = (last_alerts session0)(''AAPL'' \<mapsto> alert_key ''AAPL'' (msg l)) \<and>
       sent s' = sent session0 @
                   [make_tg_text (enrich df_buy_breakout) lb ''AAPL'' (msg l) (Close lb)] \<and>
       delivered s' = delivered session0"
    using delivery_failure_swallowed [OF n, of net_down "''AAPL''" session0] by blast
  have pl: "p = enrich df_buy_breakout ! 33" "lb = enrich df_buy_breakout ! 34"
    using example_bars [OF _ il] by simp_all
  have lv: "l = \<lparr>msg = msg_bb_upper, alert_level = ''warning'', has_trigger = True\<rparr>"
    using l buy_breakout_locals by (simp add: pl)
  have "last_alerts s' ''AAPL'' = Some (alert_key ''AAPL'' msg_bb_upper)"
    "length (sent s') = 1" "delivered s' = []"
    using fail by (simp_all add: lv session0_def net_down_def)
  then show ?thesis
    using n run by blast
qed

section \<open>The alert state\<close>

text \<open>
  C7. Every call of \<^verbatim>\<open>analyze_strategy\<close>, on any input, returns, and leaves
  \<^verbatim>\<open>last_alerts\<close> as follows: the entries of all other symbols are unchanged, no entry
  is removed, and the entry of the evaluated symbol changes only when the call fires a
  new distinct triggering signal, that is, the series has at least 35 bars,
  \<^verbatim>\<open>has_trigger\<close> is true and the key of the final message differs from the stored
  entry; then the entry becomes that key and one notification is sent.
\<close>

theorem alert_state_invariant:
  "\<exists>r s'.
     analyze_strategy net df_in symbol s = Inr (r, s') \<and>
     (\<forall>k. k \<noteq> symbol \<longrightarrow> last_alerts s' k = last_alerts s k) \<and>
     dom (last_alerts s) \<subseteq> dom (last_alerts s') \<and>
     (last_alerts s' symbol \<noteq> last_alerts s symbol \<longrightarrow>
        (\<exists>df prev_bar last_bar l.
           df_in = Some df \<and> 35 \<le> length df \<and>
           iloc (enrich df) (- 2) = Inr prev_bar \<and> iloc (enrich df) (- 1) = Inr last_bar \<and>
           l = bollinger (Close last_bar) last_bar (crossover prev_bar last_bar) \<and>
           has_trigger l \<and> last_alerts s symbol \<noteq> Some (alert_key symbol (msg l)) \<and>
           last_alerts s' symbol = Some (alert_key symbol (msg l)) \<and>
           (\<exists>t. sent s' = sent s @ [t])))"
proof (cases "df_in = None \<or> (\<exists>df. df_in = Some df \<and> length df < 35)")
  case True
  then have "analyze_strategy net df_in symbol s = Inr (None, s)"
    by (auto simp add: analyze_strategy_None analyze_strategy_short)
  then show ?thesis
    by auto
next
  case False
  then obtain df where df: "df_in = Some df" "35 \<le> length df"
    by (cases df_in) auto
  define p where "p = enrich df ! (length df - 2)"
  define lb where "lb = enrich df ! (length df - 1)"
  define l where "l = bollinger (Close lb) lb (crossover p lb)"
  define s2 where "s2 = notify net (enrich df) lb symbol (Close lb) l s"
  have il: "iloc (enrich df) (- 2) = Inr p" "iloc (enrich df) (- 1) = Inr lb"
    using iloc_enrich [OF df(2)] by (simp_all add: p_def lb_def)
  have run: "analyze_strategy net df_in symbol s =
      Inr (Some (enrich df, make_info lb (Close lb) l), s2)"
    using analyze_strategy_long [OF df(2), of net symbol s]
    by (simp add: df(1) p_def lb_def l_def s2_def)
  have ldef: "l = bollinger (Close lb) lb (crossover p lb)"
    by (simp add: l_def)
  note c = notify_cases [of net "enrich df" lb symbol "Close lb" l s, folded s2_def]
  have others: "\<forall>k. k \<noteq> symbol \<longrightarrow> last_alerts s2 k = last_alerts s k"
    using c by auto
  have keep: "dom (last_alerts s) \<subseteq> dom (last_alerts s2)"
    using c by auto
  have only: "last_alerts s2 symbol \<noteq> last_alerts s symbol \<longrightarrow>
        (\<exists>df prev_bar last_bar l.
           df_in = Some df \<and> 35 \<le> length df \<and>
           iloc (enrich df) (- 2) = Inr prev_bar \<and> iloc (enrich df) (- 1) = Inr last_bar \<and>
           l = bollinger (Close last_bar) last_bar (crossover prev_bar last_bar) \<and>
           has_trigger l \<and> last_alerts s symbol \<noteq> Some (alert_key symbol (msg l)) \<and>
           last_alerts s2 symbol = Some (alert_key symbol (msg l)) \<and>
           (\<exists>t. sent s2 = sent s @ [t]))"
  proof
    assume "last_alerts s2 symbol \<noteq> last_alerts s symbol"
    then have "has_trigger l \<and> last_alerts s symbol \<noteq> Some (alert_key symbol (msg l)) \<and>
           last_alerts s2 symbol = Some (alert_key symbol (msg l)) \<and>
           (\<exists>t. sent s2 = sent s @ [t])"
      using c by auto
    then show "\<exists>df prev_bar last_bar l.
           df_in = Some df \<and> 35 \<le> length df \<and>
           iloc (enrich df) (- 2) = Inr prev_bar \<and> iloc (enrich df) (- 1) = Inr last_bar \<and>
           l = bollinger (Close last_bar) last_bar (crossover prev_bar last_bar) \<and>
           has_trigger l \<and> last_alerts s symbol \<noteq> Some (alert_key symbol (msg l)) \<and>
           last_alerts s2 symbol = Some (alert_key symbol (msg l)) \<and>
           (\<exists>t. sent s2 = sent s @ [t])"
      using df il ldef by blast
  qed
  show ?thesis
    using run others keep only by blast
qed

theorem alert_state_invariant_witness:
  "\<exists>r s'.
     analyze_strategy net_ok (Some df_buy_breakout) ''AAPL'' session1 = Inr (r, s') \<and>
     ''NVDA'' \<noteq> ''AAPL'' \<and>
     last_alerts s' ''NVDA'' = Some (alert_key ''NVDA'' msg_death_cross) \<and>
     last_alerts s' ''AAPL'' \<noteq> last_alerts session1 ''AAPL'' \<and>
     last_alerts s' ''AAPL'' = Some (alert_key ''AAPL'' msg_bb_upper) \<and>
     35 \<le> length df_buy_breakout \<and> (\<exists>t. sent s' = sent session1 @ [t])"
proof -
  define sym where "sym = ''AAPL''"
  define other where "other = ''NVDA''"
  have d: "other \<noteq> sym"
    by (simp add: sym_def other_def)
  have s1: "last_alerts session1 sym = None"
    "last_alerts session1 other = Some (alert_key other msg_death_cross)"
    by (simp_all add: session1_def sym_def other_def)
  have "\<exists>r s'.
     analyze_strategy net_ok (Some df_buy_breakout) sym session1 = Inr (r, s') \<and>
     (\<forall>k. k \<noteq> sym \<longrightarrow> last_alerts s' k = last_alerts session1 k) \<and>
     dom (last_alerts session1) \<subseteq> dom (last_alerts s') \<and>
     (last_alerts s' sym \<noteq> last_alerts session1 sym \<longrightarrow>
        (\<exists>df prev_bar last_bar l.
           Some df_buy_breakout = Some df \<and> 35 \<le> length df \<and>
           iloc (enrich df) (- 2) = Inr prev_bar \<and> iloc (enrich df) (- 1) = Inr last_bar \<and>
           l = bollinger (Close last_bar) last_bar (crossover prev_bar last_bar) \<and>
           has_trigger l \<and> last_alerts session1 sym \<noteq> Some (alert_key sym (msg l)) \<and>
           last_alerts s' sym = Some (alert_key sym (msg l)) \<and>
           (\<exists>t. sent s' = sent session1 @ [t])))"
    by (rule alert_state_invariant)
  then obtain r s' where run: "analyze_strategy net_ok (Some df_buy_breakout) sym session1 = Inr (r, s')"
    and others: "\<forall>k. k \<noteq> sym \<longrightarrow> last_alerts s' k = last_alerts session1 k"
    and only: "last_alerts s' sym \<noteq> last_alerts session1 sym \<longrightarrow>
        (\<exists>df prev_bar last_bar l.
           Some df_buy_breakout = Some df \<and> 35 \<le> length df \<and>
           iloc (enrich df) (- 2) = Inr prev_bar \<and> iloc (enrich df) (- 1) = Inr last_bar \<and>
           l = bollinger (Close last_bar) last_bar (crossover prev_bar last_bar) \<and>
           has_trigger l \<and> last_alerts session1 sym \<noteq> Some (alert_key sym (msg l)) \<and>
           last_alerts s' sym = Some (alert_key sym (msg l)) \<and>
           (\<exists>t. sent s' = sent session1 @ [t]))"
    by (elim exE conjE)
  have ne: "last_alerts session1 sym \<noteq> Some (alert_key sym msg_bb_upper)"
    by (simp add: s1)
  have s': "s' = snd (projr (analyze_strategy net_ok (Some df_buy_breakout) sym session1))"
    using run by simp
  have k: "last_alerts s' sym = Some (alert_key sym msg_bb_upper)"
    unfolding s' using buy_breakout_session(1) [OF ne, of net_ok] by simp
  then have ch: "last_alerts s' sym \<noteq> last_alerts session1 sym"
    by (simp add: s1)
  have t: "\<exists>t. sent s' = sent session1 @ [t]"
    using only ch by (elim impE exE conjE) (assumption, rule exI)
  have o: "last_alerts s' other = Some (alert_key other msg_death_cross)"
    using others d s1(2) by simp
  have n: "35 \<le> length df_buy_breakout"
    by simp
  have "analyze_strategy net_ok (Some df_buy_breakout) sym session1 = Inr (r, s') \<and>
     other \<noteq> sym \<and>
     last_alerts s' other = Some (alert_key other msg_death_cross) \<and>
     last_alerts s' sym \<noteq> last_alerts session1 sym \<and>
     last_alerts s' sym = Some (alert_key sym msg_bb_upper) \<and>
     35 \<le> length df_buy_breakout \<and> (\<exists>t. sent s' = sent session1 @ [t])"
    using run d o ch k n t by (intro conjI)
  then show ?thesis
    unfolding sym_def other_def by (intro exI)
qed

section \<open>A series with a constant close\<close>

text \<open>
  C8. For every series of at least 35 bars whose close is the same value at every bar
  (prices being real numbers): from the 20th bar on the three Bollinger bands equal the
  close, the rolling standard deviation being 0; the MACD histogram is 0 and both
  averages equal the close at every bar; the crossover step triggers at no pair of
  consecutive bars; and \<^verbatim>\<open>analyze_strategy\<close> returns the "trend stable" message with
  level \<^verbatim>\<open>success\<close> (the spec's info), sends no notification and leaves the session
  unchanged.
\<close>

theorem constant_series_is_stable:
  assumes "35 \<le> length df" and "\<forall>b\<in>set df. Close b = c"
  shows "(\<forall>i. 19 \<le> i \<and> i < length df \<longrightarrow>
            Close (enrich df ! i) = c \<and> BB_Mid (enrich df ! i) = Some c \<and>
            BB_Upper (enrich df ! i) = Some c \<and> BB_Lower (enrich df ! i) = Some c) \<and>
         (\<forall>i. i < length df \<longrightarrow>
            MACD_Hist (enrich df ! i) = 0 \<and> EMA_F (enrich df ! i) = c \<and>
            EMA_S (enrich df ! i) = c) \<and>
         (\<forall>i. 0 < i \<and> i < length df \<longrightarrow>
            crossover (enrich df ! (i - 1)) (enrich df ! i) =
              \<lparr>msg = msg_trend_stable, alert_level = ''success'', has_trigger = False\<rparr>) \<and>
         (\<exists>i. analyze_strategy net (Some df) symbol s = Inr (Some (enrich df, i), s) \<and>
              info_msg i = msg_trend_stable \<and> info_alert_level i = ''success'')"
proof -
  have cl: "map Close df = replicate (length df) c"
    using assms(2) by (rule closes_constant)
  have bands: "\<forall>i. 19 \<le> i \<and> i < length df \<longrightarrow>
            Close (enrich df ! i) = c \<and> BB_Mid (enrich df ! i) = Some c \<and>
            BB_Upper (enrich df ! i) = Some c \<and> BB_Lower (enrich df ! i) = Some c"
    using constant_bands [OF cl] constant_close [OF cl] by blast
  have avg: "\<forall>i. i < length df \<longrightarrow>
            MACD_Hist (enrich df ! i) = 0 \<and> EMA_F (enrich df ! i) = c \<and>
            EMA_S (enrich df ! i) = c"
    using constant_row [OF cl] by blast
  have cross: "crossover (enrich df ! j) (enrich df ! i) =
              \<lparr>msg = msg_trend_stable, alert_level = ''success'', has_trigger = False\<rparr>"
    if "j < length df" "i < length df" for i j
    using that constant_row(1,2) [OF cl]
    by (simp add: crossover_def bullish_cross_def bearish_cross_def)
  have nocross: "\<forall>i. 0 < i \<and> i < length df \<longrightarrow>
            crossover (enrich df ! (i - 1)) (enrich df ! i) =
              \<lparr>msg = msg_trend_stable, alert_level = ''success'', has_trigger = False\<rparr>"
  proof (intro allI impI)
    fix i
    assume "0 < i \<and> i < length df"
    then have "i - 1 < length df" "i < length df"
      by auto
    then show "crossover (enrich df ! (i - 1)) (enrich df ! i) =
              \<lparr>msg = msg_trend_stable, alert_level = ''success'', has_trigger = False\<rparr>"
      by (rule cross)
  qed
  define lb where "lb = enrich df ! (length df - 1)"
  define l where "l = \<lparr>msg = msg_trend_stable, alert_level = ''success'', has_trigger = False\<rparr>"
  have idx: "length df - 1 < length df" "length df - 2 < length df" "19 \<le> length df - 1"
    using assms(1) by simp_all
  have c0: "crossover (enrich df ! (length df - 2)) lb = l"
    unfolding lb_def l_def using cross [OF idx(2) idx(1)] .
  have b0: "bollinger (Close lb) lb l = l"
    unfolding lb_def
    using constant_bands(2,3) [OF cl idx(3) idx(1)] constant_close [OF cl idx(1)]
    by (simp add: bollinger_def upper_break_def lower_break_def fless_def)
  have q: "notify net (enrich df) lb symbol (Close lb) l s = s"
    by (rule notify_quiet) (simp add: l_def)
  have run: "analyze_strategy net (Some df) symbol s =
      Inr (Some (enrich df, make_info lb (Close lb) l), s)"
    using analyze_strategy_long [OF assms(1), of net symbol s, folded lb_def]
    by (simp only: c0 b0 q)
  have "info_msg (make_info lb (Close lb) l) = msg_trend_stable"
    "info_alert_level (make_info lb (Close lb) l) = ''success''"
    by (simp_all add: l_def)
  then have res: "\<exists>i. analyze_strategy net (Some df) symbol s = Inr (Some (enrich df, i), s) \<and>
              info_msg i = msg_trend_stable \<and> info_alert_level i = ''success''"
    using run by blast
  show ?thesis
    using bands avg nocross res by (intro conjI)
qed

theorem constant_series_is_stable_witness:
  "35 \<le> length df_flat \<and> map Close df_flat = replicate 35 100 \<and>
   BB_Upper (enrich df_flat ! 34) = Some 100 \<and> BB_Lower (enrich df_flat ! 34) = Some 100 \<and>
   BB_Mid (enrich df_flat ! 19) = Some 100 \<and> MACD_Hist (enrich df_flat ! 0) = 0 \<and>
   \<not> has_trigger (crossover (enrich df_flat ! 33) (enrich df_flat ! 34)) \<and>
   (\<exists>i. analyze_strategy net_ok (Some df_flat) ''AAPL'' session0 =
          Inr (Some (enrich df_flat, i), session0) \<and> info_msg i = msg_trend_stable)"
proof -
  have n: "35 \<le> length df_flat"
    by simp
  have c: "\<forall>b\<in>set df_flat. Close b = 100"
    by (auto simp add: df_flat_def bars_def)
  note t = constant_series_is_stable [OF n c, of net_ok "''AAPL''" session0]
  have bands: "\<forall>i. 19 \<le> i \<and> i < length df_flat \<longrightarrow>
            Close (enrich df_flat ! i) = 100 \<and> BB_Mid (enrich df_flat ! i) = Some 100 \<and>
            BB_Upper (enrich df_flat ! i) = Some 100 \<and> BB_Lower (enrich df_flat ! i) = Some 100"
    using t by (elim conjE)
  have avg: "\<forall>i. i < length df_flat \<longrightarrow>
            MACD_Hist (enrich df_flat ! i) = 0 \<and> EMA_F (enrich df_flat ! i) = 100 \<and>
            EMA_S (enrich df_flat ! i) = 100"
    using t by (elim conjE)
  have nocross: "\<forall>i. 0 < i \<and> i < length df_flat \<longrightarrow>
            crossover (enrich df_flat ! (i - 1)) (enrich df_flat ! i) =
              \<lparr>msg = msg_trend_stable, alert_level = ''success'', has_trigger = False\<rparr>"
    using t by (elim conjE)
  have res: "\<exists>i. analyze_strategy net_ok (Some df_flat) ''AAPL'' session0 =
          Inr (Some (enrich df_flat, i), session0) \<and> info_msg i = msg_trend_stable"
    using t by blast
  have b: "BB_Upper (enrich df_flat ! 34) = Some 100" "BB_Lower (enrich df_flat ! 34) = Some 100"
    "BB_Mid (enrich df_flat ! 19) = Some 100"
    using bands [rule_format, of 34] bands [rule_format, of 19] by simp_all
  have m: "MACD_Hist (enrich df_flat ! 0) = 0"
    using avg [rule_format, of 0] by simp
  have x: "\<not> has_trigger (crossover (enrich df_flat ! 33) (enrich df_flat ! 34))"
    using nocross [rule_format, of 34] by simp
  have cl: "map Close df_flat = replicate 35 100"
    by (simp add: df_flat_def)
  show ?thesis
    using n cl b m x res by (intro conjI)
qed

end
